theory Spec2Isabelle
  imports Main
begin

section \<open>ChatKit: the embedded page's side of the cross-frame messaging bridge\<close>

text \<open>
  A shallow embedding of \<^verbatim>\<open>mortgage-agent/frontend/chatkit.js\<close>. The
  \<^verbatim>\<open>ChatKit\<close> object is a record of its five mutable fields; every method takes
  the object and returns how it completed (normally, or by throwing), the object as the
  method left it, and the list of what it did to the outside world, in order: calls of
  \<^verbatim>\<open>window.parent.postMessage\<close>, console output, the listener registration and the
  calls of the callbacks the page supplied.

  The callbacks (\<^verbatim>\<open>onReady\<close>, \<^verbatim>\<open>onError\<close>, the command handlers) are code
  of the embedding page and not of this file: they are opaque function references, a
  call of one is recorded as an effect, and they are taken to return normally without
  calling back into \<^verbatim>\<open>ChatKit\<close>.
\<close>

subsection \<open>JavaScript values\<close>

text \<open>
  The values that cross the frame boundary (structured-clone data) and the values the
  methods are called with. Numbers are carried as integers; an object is the list of
  its own properties.
\<close>

datatype jsval =
    JUndefined
  | JNull
  | JBool bool
  | JNum int
  | JStr string
  | JArr "jsval list"
  | JObj "(string \<times> jsval) list"

text \<open>A function supplied by the embedding page, known by a name only.\<close>

datatype jsfun = JsFun string

datatype error =
    TypeError
  | SyntaxError
  | DataCloneError
  | EvalError

text \<open>ToBoolean, and the \<^verbatim>\<open>!\<close> operator.\<close>

fun truthy :: "jsval \<Rightarrow> bool" where
  "truthy JUndefined = False"
| "truthy JNull = False"
| "truthy (JBool b) = b"
| "truthy (JNum n) = (n \<noteq> 0)"
| "truthy (JStr s) = (s \<noteq> [])"
| "truthy (JArr xs) = True"
| "truthy (JObj fs) = True"

definition js_not :: "jsval \<Rightarrow> bool" where
  "js_not v = (if truthy v then False else True)"

text \<open>The \<^verbatim>\<open>typeof\<close> operator.\<close>

fun typeof :: "jsval \<Rightarrow> string" where
  "typeof JUndefined = ''undefined''"
| "typeof JNull = ''object''"
| "typeof (JBool b) = ''boolean''"
| "typeof (JNum n) = ''number''"
| "typeof (JStr s) = ''string''"
| "typeof (JArr xs) = ''object''"
| "typeof (JObj fs) = ''object''"

text \<open>The \<^verbatim>\<open>||\<close> operator: the left operand when it is truthy, else the right one.\<close>

definition js_or :: "jsval \<Rightarrow> jsval \<Rightarrow> jsval" where
  "js_or a b = (if truthy a then a else b)"

text \<open>
  Reading a property \<^verbatim>\<open>v.k\<close> of a value that is not null or undefined, for a name
  \<open>k\<close> that no built-in prototype defines (\<^verbatim>\<open>type\<close>, \<^verbatim>\<open>command\<close>,
  \<^verbatim>\<open>params\<close>, \<^verbatim>\<open>pageId\<close>, \<^verbatim>\<open>timestamp\<close>): the own property, or undefined.
\<close>

fun get_prop :: "jsval \<Rightarrow> string \<Rightarrow> jsval" where
  "get_prop (JObj fs) k = (case map_of fs k of Some v \<Rightarrow> v | None \<Rightarrow> JUndefined)"
| "get_prop v k = JUndefined"

fun has_prop :: "jsval \<Rightarrow> string \<Rightarrow> bool" where
  "has_prop (JObj fs) k = (case map_of fs k of Some v \<Rightarrow> True | None \<Rightarrow> False)"
| "has_prop v k = False"

text \<open>Decimal digits of a natural number, as \<^verbatim>\<open>String(n)\<close> prints it.\<close>

definition digit_char :: "nat \<Rightarrow> char" where
  "digit_char d =
     (if d = 0 then CHR ''0'' else if d = 1 then CHR ''1'' else if d = 2 then CHR ''2''
      else if d = 3 then CHR ''3'' else if d = 4 then CHR ''4'' else if d = 5 then CHR ''5''
      else if d = 6 then CHR ''6'' else if d = 7 then CHR ''7'' else if d = 8 then CHR ''8''
      else CHR ''9'')"

fun dec_nat :: "nat \<Rightarrow> string" where
  "dec_nat n =
     (if n < 10 then [digit_char n]
      else dec_nat (n div 10) @ [digit_char (n mod 10)])"

declare dec_nat.simps [simp del]

text \<open>
  ToPropertyKey, which turns the value of \<^verbatim>\<open>message.command\<close> into the property key
  of \<^verbatim>\<open>this._commandHandlers[command]\<close> (source line 181).
  \<^item> A number in the safe range (below \<^verbatim>\<open>2^53\<close> in magnitude) prints as its decimal digits;
    beyond it \<^verbatim>\<open>Number::toString\<close> prints the shortest digits that read back as the
    same number, in exponent form from \<^verbatim>\<open>10^21\<close> on (\<^verbatim>\<open>1e+21\<close>), which is left to the
    printer \<open>p\<close>.
  \<^item> A plain object is \<^verbatim>\<open>[object Object]\<close>, by \<^verbatim>\<open>Object.prototype.toString\<close>. An
    object with an own property \<^verbatim>\<open>toString\<close> has no callable \<^verbatim>\<open>toString\<close> (cloned
    data holds no function) and no \<^verbatim>\<open>valueOf\<close> that returns a primitive: the
    conversion throws a TypeError.
  \<^item> An array joins the keys of its elements with commas, null and undefined elements as
    the empty string; the first element that cannot be converted throws.
\<close>

fun to_property_key :: "(int \<Rightarrow> string) \<Rightarrow> jsval \<Rightarrow> error + string"
  and join_keys :: "(int \<Rightarrow> string) \<Rightarrow> jsval list \<Rightarrow> error + string" where
  "to_property_key p JUndefined = Inr ''undefined''"
| "to_property_key p JNull = Inr ''null''"
| "to_property_key p (JBool b) = Inr (if b then ''true'' else ''false'')"
| "to_property_key p (JNum n) =
     Inr (if \<bar>n\<bar> < 9007199254740992
          then (if n < 0 then ''-'' @ dec_nat (nat (- n)) else dec_nat (nat n))
          else p n)"
| "to_property_key p (JStr s) = Inr s"
| "to_property_key p (JArr xs) = join_keys p xs"
| "to_property_key p (JObj fs) =
     (case map_of fs ''toString'' of
        None \<Rightarrow> Inr ''[object Object]''
      | Some v \<Rightarrow> Inl TypeError)"
| "join_keys p [] = Inr []"
| "join_keys p (x # xs) =
     (case (case x of JUndefined \<Rightarrow> Inr [] | JNull \<Rightarrow> Inr [] | _ \<Rightarrow> to_property_key p x) of
        Inl e \<Rightarrow> Inl e
      | Inr k \<Rightarrow>
          (if xs = [] then Inr k
           else case join_keys p xs of
                  Inl e \<Rightarrow> Inl e
                | Inr ks \<Rightarrow> Inr (k @ '','' @ ks)))"

subsection \<open>The page's environment\<close>

text \<open>
  What the browser decides, as the code reads it: whether the page has a parent frame
  (\<^verbatim>\<open>window.parent !== window\<close>), \<^verbatim>\<open>document.referrer\<close> (the empty string when
  there is none), what \<^verbatim>\<open>new URL(u).origin\<close> gives or throws, whether
  \<^verbatim>\<open>window.parent.postMessage(message, origin)\<close> throws (a target origin that is not
  an origin, a message that cannot be cloned), and the two scroll heights.

  \<open>number_to_string\<close> is \<^verbatim>\<open>Number::toString\<close> for the numbers beyond the safe range.

  The remaining entries describe what the code reaches when a property lookup or an
  assignment leaves the handler table:
  \<^item> \<open>builtin_call k v\<close> is the outcome of calling the built-in function known as \<open>k\<close>
    (for a function of \<^verbatim>\<open>Object.prototype\<close>, its property name) as a plain function on
    \<open>v\<close>: it returns, or throws;
  \<^item> \<open>function_property f k\<close> is what reading the property \<open>k\<close> of an object whose
    prototype is the function \<open>f\<close> gives when the object has no such property of its own:
    a value, or an exception of a getter;
  \<^item> \<open>function_assign f k\<close> is what assigning to the property \<open>k\<close> of such an object
    does.
\<close>

text \<open>
  What a lookup in the handler table yields: undefined or another falsy value, a
  function of the page, a built-in function, or a truthy value that is not a function.
\<close>

datatype handler_val =
    HUndefined
  | HFun jsfun
  | HBuiltin string
  | HObject

text \<open>
  What an assignment to a property an object does not own does, in strict-mode code: it
  creates the own property; or it reaches the setter of \<^verbatim>\<open>__proto__\<close>, which replaces
  the object's prototype; or it throws, the inherited property being read-only or an
  accessor that rejects the value; or a setter the page defined takes the value.
\<close>

datatype assignment =
    CreatesOwn
  | SetsPrototype
  | Rejected error
  | TakenBySetter

record world =
  embedded :: bool
  referrer :: string
  url_origin :: "string \<Rightarrow> error + string"
  post_throws :: "jsval \<Rightarrow> string option \<Rightarrow> error option"
  number_to_string :: "int \<Rightarrow> string"
  builtin_call :: "string \<Rightarrow> jsval \<Rightarrow> error option"
  function_property :: "jsfun \<Rightarrow> string \<Rightarrow> error + handler_val"
  function_assign :: "jsfun \<Rightarrow> string \<Rightarrow> assignment"
  body_scrollHeight :: int
  root_scrollHeight :: int

subsection \<open>The ChatKit object\<close>

text \<open>The configuration object: \<^verbatim>\<open>pageId\<close> and the two optional callbacks.\<close>

record kit_config =
  pageId :: jsval
  onReady :: "jsfun option"
  onError :: "jsfun option"

text \<open>
  \<^verbatim>\<open>_commandHandlers\<close> is the object literal \<^verbatim>\<open>{}\<close>: an ordinary object whose
  prototype is \<^verbatim>\<open>Object.prototype\<close>. It is its own properties and its prototype;
  \<open>proto = None\<close> is the prototype it is created with, \<open>Some f\<close> the function an
  assignment to the key \<^verbatim>\<open>__proto__\<close> has put in its place. The own properties are
  those that \<^verbatim>\<open>onCommand\<close> has created: writable, and holding a handler.
\<close>

record registry =
  own :: "string \<Rightarrow> jsfun option"
  proto :: "jsfun option"

record chatkit =
  config :: "kit_config option"
  parentOrigin :: "string option"
  messageQueue :: "jsval list"
  commandHandlers :: registry
  isReady :: bool

text \<open>The object as the script creates it (source lines 21 to 27).\<close>

definition initial :: chatkit where
  "initial =
     \<lparr>config = None, parentOrigin = None, messageQueue = [],
      commandHandlers = \<lparr>own = (\<lambda>k. None), proto = None\<rparr>, isReady = False\<rparr>"

text \<open>
  What a method does to the outside world. \<open>PostMessage m org r\<close> is one call of
  \<^verbatim>\<open>window.parent.postMessage(m, org)\<close>: it returned when \<open>r = None\<close> and threw
  \<open>e\<close> when \<open>r = Some e\<close>.
\<close>

datatype effect =
    PostMessage jsval "string option" "error option"
  | ConsoleWarn string "jsval list"
  | ConsoleError string error
  | AddEventListener
  | CallOnReady jsfun
  | CallOnError jsfun error
  | CallHandler jsfun jsval
  | CallBuiltin string jsval

datatype completion = Normal | Throw error

type_synonym result = "completion \<times> chatkit \<times> effect list"

text \<open>Statement sequencing: the second part runs when the first completed normally.\<close>

definition and_then :: "result \<Rightarrow> (chatkit \<Rightarrow> result) \<Rightarrow> result" where
  "and_then r k =
     (case r of
        (Normal, s, es) \<Rightarrow> (case k s of (c, s', es') \<Rightarrow> (c, s', es @ es'))
      | (Throw e, s, es) \<Rightarrow> (Throw e, s, es))"

definition completion_of :: "result \<Rightarrow> completion" where
  "completion_of r = fst r"

definition state_of :: "result \<Rightarrow> chatkit" where
  "state_of r = fst (snd r)"

definition effects_of :: "result \<Rightarrow> effect list" where
  "effects_of r = snd (snd r)"

text \<open>The messages handed to \<^verbatim>\<open>postMessage\<close>, and those it accepted, in order.\<close>

fun attempted :: "effect list \<Rightarrow> jsval list" where
  "attempted [] = []"
| "attempted (PostMessage m org r # es) = m # attempted es"
| "attempted (e # es) = attempted es"

fun delivered :: "effect list \<Rightarrow> jsval list" where
  "delivered [] = []"
| "delivered (PostMessage m org None # es) = m # delivered es"
| "delivered (e # es) = delivered es"

subsection \<open>The handler table\<close>

text \<open>The function-valued properties of \<^verbatim>\<open>Object.prototype\<close>.\<close>

definition object_prototype_functions :: "string list" where
  "object_prototype_functions =
     [''constructor'', ''hasOwnProperty'', ''isPrototypeOf'', ''propertyIsEnumerable'',
      ''toLocaleString'', ''toString'', ''valueOf'', ''__defineGetter__'',
      ''__defineSetter__'', ''__lookupGetter__'', ''__lookupSetter__'']"

text \<open>
  \<^verbatim>\<open>this._commandHandlers[k]\<close>: the own property when there is one, and otherwise what
  the prototype chain holds. While the table has the prototype it was created with, the
  chain is \<^verbatim>\<open>Object.prototype\<close>: its accessor \<^verbatim>\<open>__proto__\<close> reads the prototype
  itself, an object that is not a function, and its other properties are functions.
\<close>

definition get_handler :: "world \<Rightarrow> registry \<Rightarrow> string \<Rightarrow> error + handler_val" where
  "get_handler w r k =
     (case own r k of
        Some h \<Rightarrow> Inr (HFun h)
      | None \<Rightarrow>
          (case proto r of
             None \<Rightarrow>
               Inr (if k = ''__proto__'' then HObject
                    else if k \<in> set object_prototype_functions then HBuiltin k
                    else HUndefined)
           | Some f \<Rightarrow> function_property w f k))"

text \<open>
  \<^verbatim>\<open>this._commandHandlers[k] = handler\<close>, in strict-mode code (source line 19). An own
  property is overwritten. Otherwise, while the prototype is \<^verbatim>\<open>Object.prototype\<close>, the
  key \<^verbatim>\<open>__proto__\<close> runs the accessor's setter, which makes the handler the table's
  prototype, and any other key becomes an own property (the functions of
  \<^verbatim>\<open>Object.prototype\<close> are writable). Once a function is the prototype, the outcome is
  the environment's: assigning \<^verbatim>\<open>name\<close> or \<^verbatim>\<open>length\<close>, read-only properties of
  every function, throws a TypeError and registers nothing.
\<close>

definition set_handler :: "world \<Rightarrow> registry \<Rightarrow> string \<Rightarrow> jsfun \<Rightarrow> error + registry" where
  "set_handler w r k h =
     (case own r k of
        Some h0 \<Rightarrow> Inr (r\<lparr>own := (own r)(k \<mapsto> h)\<rparr>)
      | None \<Rightarrow>
          (case proto r of
             None \<Rightarrow>
               Inr (if k = ''__proto__'' then r\<lparr>proto := Some h\<rparr>
                    else r\<lparr>own := (own r)(k \<mapsto> h)\<rparr>)
           | Some f \<Rightarrow>
               (case function_assign w f k of
                  CreatesOwn \<Rightarrow> Inr (r\<lparr>own := (own r)(k \<mapsto> h)\<rparr>)
                | SetsPrototype \<Rightarrow> Inr (r\<lparr>proto := Some h\<rparr>)
                | Rejected e \<Rightarrow> Inl e
                | TakenBySetter \<Rightarrow> Inr r)))"

subsection \<open>Internal methods\<close>

text \<open>
  \<^verbatim>\<open>_detectParentOrigin\<close> (source lines 134 to 142): a warning and nothing else in a
  top-level page; otherwise the referrer's origin, or the wildcard when there is no
  referrer.
\<close>

definition detectParentOrigin :: "world \<Rightarrow> chatkit \<Rightarrow> result" where
  "detectParentOrigin w s =
     (if \<not> embedded w then (Normal, s, [ConsoleWarn ''[ChatKit] Not running in iframe'' []])
      else if referrer w \<noteq> [] then
        (case url_origin w (referrer w) of
           Inl e \<Rightarrow> (Throw e, s, [])
         | Inr org \<Rightarrow> (Normal, s\<lparr>parentOrigin := Some org\<rparr>, []))
      else (Normal, s\<lparr>parentOrigin := Some ''*''\<rparr>, []))"

text \<open>
  \<^verbatim>\<open>_sendToParent\<close> (source lines 144 to 155). The \<^verbatim>\<open>catch\<close> block reads
  \<^verbatim>\<open>this._config.onError\<close>, which itself throws a TypeError while \<^verbatim>\<open>_config\<close> is
  still null.
\<close>

definition sendToParent :: "world \<Rightarrow> jsval \<Rightarrow> chatkit \<Rightarrow> result" where
  "sendToParent w message s =
     (if \<not> embedded w then (Normal, s, [])
      else case post_throws w message (parentOrigin s) of
        None \<Rightarrow> (Normal, s, [PostMessage message (parentOrigin s) None])
      | Some e \<Rightarrow>
          (let tried =
             [PostMessage message (parentOrigin s) (Some e),
              ConsoleError ''[ChatKit] Failed to send message:'' e]
           in case config s of
                None \<Rightarrow> (Throw TypeError, s, tried)
              | Some c \<Rightarrow>
                  (case onError c of
                     None \<Rightarrow> (Normal, s, tried)
                   | Some f \<Rightarrow> (Normal, s, tried @ [CallOnError f e]))))"

text \<open>
  The loop of source lines 168 to 171: while the queue is not empty, take its first
  message off and send it.
\<close>

function flushQueue :: "world \<Rightarrow> chatkit \<Rightarrow> result" where
  "flushQueue w s =
     (case messageQueue s of
        [] \<Rightarrow> (Normal, s, [])
      | queued # rest \<Rightarrow>
          (case sendToParent w queued (s\<lparr>messageQueue := rest\<rparr>) of
             (Normal, s1, es) \<Rightarrow>
               (case flushQueue w s1 of (c, s2, es2) \<Rightarrow> (c, s2, es @ es2))
           | (Throw e, s1, es) \<Rightarrow> (Throw e, s1, es)))"
  by pat_completeness auto
termination
  by (relation "measure (\<lambda>(w, s). length (messageQueue s))")
     (auto simp: sendToParent_def Let_def split: if_splits option.splits)

declare flushQueue.simps [simp del]

text \<open>
  \<^verbatim>\<open>_handleMessage\<close> (source lines 157 to 189), in its two parts: the handshake and
  the command dispatch. The event's origin is never read.
\<close>

record event =
  data :: jsval
  origin :: string

definition handleReady :: "world \<Rightarrow> jsval \<Rightarrow> chatkit \<Rightarrow> result" where
  "handleReady w message s =
     (if get_prop message ''type'' = JStr ''parent_ready'' then
        and_then (flushQueue w (s\<lparr>isReady := True\<rparr>))
          (\<lambda>s1. case config s1 of
                  None \<Rightarrow> (Throw TypeError, s1, [])
                | Some c \<Rightarrow>
                    (case onReady c of
                       None \<Rightarrow> (Normal, s1, [])
                     | Some f \<Rightarrow> (Normal, s1, [CallOnReady f])))
      else (Normal, s, []))"

definition handleCommand :: "world \<Rightarrow> jsval \<Rightarrow> chatkit \<Rightarrow> result" where
  "handleCommand w message s =
     (if get_prop message ''type'' = JStr ''parent_command'' then
        (let command = get_prop message ''command''
         in case to_property_key (number_to_string w) command of
              Inl e \<Rightarrow> (Throw e, s, [])
            | Inr key \<Rightarrow>
                (case get_handler w (commandHandlers s) key of
                   Inl e \<Rightarrow> (Throw e, s, [])
                 | Inr (HFun f) \<Rightarrow> (Normal, s, [CallHandler f (get_prop message ''params'')])
                 | Inr (HBuiltin k) \<Rightarrow>
                     (case builtin_call w k (get_prop message ''params'') of
                        None \<Rightarrow> (Normal, s, [CallBuiltin k (get_prop message ''params'')])
                      | Some e \<Rightarrow> (Throw e, s, [CallBuiltin k (get_prop message ''params'')]))
                 | Inr HObject \<Rightarrow> (Throw TypeError, s, [])
                 | Inr HUndefined \<Rightarrow>
                     (Normal, s,
                      [ConsoleWarn ''[ChatKit] No handler for command:'' [command]])))
      else (Normal, s, []))"

definition handleMessage :: "world \<Rightarrow> event \<Rightarrow> chatkit \<Rightarrow> result" where
  "handleMessage w ev s =
     (let message = data ev
      in if js_not message \<or> typeof message \<noteq> ''object'' then (Normal, s, [])
         else and_then (handleReady w message s) (handleCommand w message))"

subsection \<open>The messages the methods build\<close>

definition readyMessage :: "kit_config \<Rightarrow> string \<Rightarrow> jsval" where
  "readyMessage c ts =
     JObj [(''type'', JStr ''embed_ready''), (''pageId'', pageId c),
           (''timestamp'', JStr ts)]"

definition dataMessage :: "kit_config \<Rightarrow> string \<Rightarrow> jsval \<Rightarrow> jsval \<Rightarrow> jsval" where
  "dataMessage c ts dat options =
     JObj [(''type'', JStr ''embed_data''), (''pageId'', pageId c), (''data'', dat),
           (''options'', js_or options (JObj [])), (''timestamp'', JStr ts)]"

definition resizeMessage :: "kit_config \<Rightarrow> jsval \<Rightarrow> jsval" where
  "resizeMessage c height =
     JObj [(''type'', JStr ''embed_resize''), (''pageId'', pageId c), (''height'', height)]"

definition closeMessage :: "kit_config \<Rightarrow> jsval" where
  "closeMessage c = JObj [(''type'', JStr ''embed_close''), (''pageId'', pageId c)]"

subsection \<open>Public methods\<close>

text \<open>
  \<^verbatim>\<open>init\<close> (source lines 37 to 55). \<open>now\<close> is what \<^verbatim>\<open>Date.now()\<close> returns and
  \<open>ts\<close> what \<^verbatim>\<open>new Date().toISOString()\<close> returns during the call; \<open>cfg = None\<close>
  is a call without a configuration object. \<^verbatim>\<open>Date.now()\<close> is a time value, in the safe
  range, where a number prints as its decimal digits.
\<close>

definition resolve_config :: "nat \<Rightarrow> kit_config option \<Rightarrow> kit_config" where
  "resolve_config now cfg =
     (let c0 = (case cfg of
                  None \<Rightarrow> \<lparr>pageId = JUndefined, onReady = None, onError = None\<rparr>
                | Some c \<Rightarrow> c)
      in c0\<lparr>pageId := js_or (pageId c0) (JStr (''embed-'' @ dec_nat now))\<rparr>)"

definition init :: "world \<Rightarrow> nat \<Rightarrow> string \<Rightarrow> kit_config option \<Rightarrow> chatkit \<Rightarrow> result" where
  "init w now ts cfg s =
     (let c = resolve_config now cfg
      in and_then (detectParentOrigin w (s\<lparr>config := Some c\<rparr>))
           (\<lambda>s1. and_then (Normal, s1, [AddEventListener])
                    (sendToParent w (readyMessage c ts))))"

text \<open>
  \<^verbatim>\<open>sendData\<close> (source lines 62 to 76). The message is built first, and reading
  \<^verbatim>\<open>this._config.pageId\<close> throws while \<^verbatim>\<open>_config\<close> is null.
\<close>

definition sendData :: "world \<Rightarrow> string \<Rightarrow> jsval \<Rightarrow> jsval \<Rightarrow> chatkit \<Rightarrow> result" where
  "sendData w ts dat options s =
     (case config s of
        None \<Rightarrow> (Throw TypeError, s, [])
      | Some c \<Rightarrow>
          (let message = dataMessage c ts dat options
           in if isReady s then sendToParent w message s
              else (Normal, s\<lparr>messageQueue := messageQueue s @ [message]\<rparr>, [])))"

definition sendMessage :: "world \<Rightarrow> string \<Rightarrow> jsval \<Rightarrow> jsval \<Rightarrow> chatkit \<Rightarrow> result" where
  "sendMessage w ts txt_val kind s =
     sendData w ts
       (JObj [(''type'', JStr ''message''), (''messageType'', js_or kind (JStr ''info'')),
              (''content'', txt_val)])
       JUndefined s"

text \<open>
  \<^verbatim>\<open>onCommand\<close> (source lines 96 to 98). When the assignment throws, nothing is
  registered.
\<close>

definition onCommand :: "world \<Rightarrow> string \<Rightarrow> jsfun \<Rightarrow> chatkit \<Rightarrow> result" where
  "onCommand w command handler s =
     (case set_handler w (commandHandlers s) command handler of
        Inl e \<Rightarrow> (Throw e, s, [])
      | Inr r \<Rightarrow> (Normal, s\<lparr>commandHandlers := r\<rparr>, []))"

definition resize :: "world \<Rightarrow> jsval \<Rightarrow> chatkit \<Rightarrow> result" where
  "resize w height s =
     (case config s of
        None \<Rightarrow> (Throw TypeError, s, [])
      | Some c \<Rightarrow> sendToParent w (resizeMessage c height) s)"

definition autoResize :: "world \<Rightarrow> chatkit \<Rightarrow> result" where
  "autoResize w s = resize w (JNum (max (body_scrollHeight w) (root_scrollHeight w))) s"

definition close :: "world \<Rightarrow> chatkit \<Rightarrow> result" where
  "close w s =
     (case config s of
        None \<Rightarrow> (Throw TypeError, s, [])
      | Some c \<Rightarrow> sendToParent w (closeMessage c) s)"

subsection \<open>Sequences of calls\<close>

text \<open>
  One call on the object: of a public method by the page, or of the message listener
  by the browser. A call that throws leaves the object as it was at the throw, and
  later calls go on from there.
\<close>

datatype call =
    Init nat string "kit_config option"
  | SendData string jsval jsval
  | SendMessage string jsval jsval
  | OnCommand string jsfun
  | Resize jsval
  | AutoResize
  | Close
  | Dispatch event

fun run_call :: "world \<Rightarrow> call \<Rightarrow> chatkit \<Rightarrow> result" where
  "run_call w (Init now ts cfg) s = init w now ts cfg s"
| "run_call w (SendData ts dat options) s = sendData w ts dat options s"
| "run_call w (SendMessage ts txt_val kind) s = sendMessage w ts txt_val kind s"
| "run_call w (OnCommand command handler) s = onCommand w command handler s"
| "run_call w (Resize height) s = resize w height s"
| "run_call w AutoResize s = autoResize w s"
| "run_call w Close s = close w s"
| "run_call w (Dispatch ev) s = handleMessage w ev s"

fun run_calls :: "world \<Rightarrow> call list \<Rightarrow> chatkit \<Rightarrow> chatkit \<times> effect list" where
  "run_calls w [] s = (s, [])"
| "run_calls w (c # cs) s =
     (case run_call w c s of
        (r, s1, es) \<Rightarrow> (case run_calls w cs s1 of (s2, es2) \<Rightarrow> (s2, es @ es2)))"

definition state_after :: "world \<Rightarrow> call list \<Rightarrow> chatkit \<Rightarrow> chatkit" where
  "state_after w cs s = fst (run_calls w cs s)"

definition trace_of :: "world \<Rightarrow> call list \<Rightarrow> chatkit \<Rightarrow> effect list" where
  "trace_of w cs s = snd (run_calls w cs s)"

subsection \<open>The window's message listeners\<close>

text \<open>
  Every \<^verbatim>\<open>init\<close> that reaches source line 45 adds one more listener to the window, a
  fresh bound \<^verbatim>\<open>_handleMessage\<close>. For each message event the browser calls every
  listener, in the order they were added; an exception in one is reported and does not
  stop the next. The page is the object together with the number of its listeners; a
  step of the page is a method call or a message event from outside.
\<close>

record page =
  kit :: chatkit
  listeners :: nat

definition initial_page :: page where
  "initial_page = \<lparr>kit = initial, listeners = 0\<rparr>"

fun added_listeners :: "effect list \<Rightarrow> nat" where
  "added_listeners [] = 0"
| "added_listeners (AddEventListener # es) = Suc (added_listeners es)"
| "added_listeners (e # es) = added_listeners es"

datatype step = Method call | Message event

fun run_step :: "world \<Rightarrow> step \<Rightarrow> page \<Rightarrow> page \<times> effect list" where
  "run_step w (Method c) p =
     (case run_call w c (kit p) of
        (r, s, es) \<Rightarrow> (\<lparr>kit = s, listeners = listeners p + added_listeners es\<rparr>, es))"
| "run_step w (Message ev) p =
     (case run_calls w (replicate (listeners p) (Dispatch ev)) (kit p) of
        (s, es) \<Rightarrow> (p\<lparr>kit := s\<rparr>, es))"

fun run_steps :: "world \<Rightarrow> step list \<Rightarrow> page \<Rightarrow> page \<times> effect list" where
  "run_steps w [] p = (p, [])"
| "run_steps w (st # sts) p =
     (case run_step w st p of
        (p1, es) \<Rightarrow> (case run_steps w sts p1 of (p2, es2) \<Rightarrow> (p2, es @ es2)))"

definition page_after :: "world \<Rightarrow> step list \<Rightarrow> page \<Rightarrow> page" where
  "page_after w sts p = fst (run_steps w sts p)"

subsection \<open>Predicates of the statements\<close>

text \<open>
  An event that passes the guard of source line 161 and carries the handshake type, and
  one that passes it and carries a command whose key in the handler table is \<open>name\<close>.
\<close>

definition is_parent_ready :: "event \<Rightarrow> bool" where
  "is_parent_ready ev =
     (truthy (data ev) \<and> typeof (data ev) = ''object''
      \<and> get_prop (data ev) ''type'' = JStr ''parent_ready'')"

definition is_command_for :: "world \<Rightarrow> string \<Rightarrow> event \<Rightarrow> bool" where
  "is_command_for w name ev =
     (truthy (data ev) \<and> typeof (data ev) = ''object''
      \<and> get_prop (data ev) ''type'' = JStr ''parent_command''
      \<and> to_property_key (number_to_string w) (get_prop (data ev) ''command'') = Inr name)"

text \<open>A call that registers a handler under \<open>name\<close>.\<close>

fun registers :: "string \<Rightarrow> call \<Rightarrow> bool" where
  "registers name (OnCommand command handler) = (command = name)"
| "registers name c = False"

text \<open>
  What holds of the object after any sequence of calls: once ready, the queue is empty;
  and a queue that is not empty was filled after \<^verbatim>\<open>init\<close>.
\<close>

definition queue_invariant :: "chatkit \<Rightarrow> bool" where
  "queue_invariant s =
     ((isReady s \<longrightarrow> messageQueue s = [])
      \<and> (messageQueue s \<noteq> [] \<longrightarrow> config s \<noteq> None))"

subsection \<open>Example environments and sessions\<close>

text \<open>
  The functions of the example page are function declarations in strict-mode code, with
  a name and no parameters. Through such a function as prototype, \<^verbatim>\<open>__proto__\<close> reads
  the function itself; \<^verbatim>\<open>arguments\<close> and \<^verbatim>\<open>caller\<close> are accessors of
  \<^verbatim>\<open>Function.prototype\<close> that throw; \<^verbatim>\<open>name\<close> is a string that is not empty,
  \<^verbatim>\<open>length\<close> is zero and \<^verbatim>\<open>prototype\<close> is an object; the other names are the
  functions of \<^verbatim>\<open>Function.prototype\<close> and \<^verbatim>\<open>Object.prototype\<close>. Of these names,
  \<^verbatim>\<open>name\<close> and \<^verbatim>\<open>length\<close> are read-only and \<^verbatim>\<open>arguments\<close> and
  \<^verbatim>\<open>caller\<close> reject every value.
\<close>

definition strict_function_property :: "jsfun \<Rightarrow> string \<Rightarrow> error + handler_val" where
  "strict_function_property f k =
     (if k = ''__proto__'' then Inr (HFun f)
      else if k = ''arguments'' \<or> k = ''caller'' then Inl TypeError
      else if k = ''name'' \<or> k = ''prototype'' then Inr HObject
      else if k = ''length'' then Inr HUndefined
      else if k = ''apply'' \<or> k = ''bind'' \<or> k = ''call'' \<or> k = ''toString''
        then Inr (HBuiltin (''Function.prototype.'' @ k))
      else if k = ''constructor'' then Inr (HBuiltin ''Function'')
      else if k \<in> set object_prototype_functions then Inr (HBuiltin k)
      else Inr HUndefined)"

definition strict_function_assign :: "jsfun \<Rightarrow> string \<Rightarrow> assignment" where
  "strict_function_assign f k =
     (if k = ''__proto__'' then SetsPrototype
      else if k = ''name'' \<or> k = ''length'' \<or> k = ''arguments'' \<or> k = ''caller''
        then Rejected TypeError
      else CreatesOwn)"

text \<open>
  Built-in functions called as plain functions, with no receiver:
  \<^verbatim>\<open>Object.prototype.toString\<close> and \<^verbatim>\<open>Object\<close> return; \<^verbatim>\<open>isPrototypeOf\<close>
  returns for a primitive and throws for an object; \<^verbatim>\<open>Function\<close> throws an
  EvalError, the example page's content security policy forbidding the compilation of
  strings; every other one throws a TypeError for the missing receiver.
\<close>

definition plain_builtin_call :: "string \<Rightarrow> jsval \<Rightarrow> error option" where
  "plain_builtin_call k v =
     (if k = ''toString'' \<or> k = ''constructor'' then None
      else if k = ''isPrototypeOf''
        then (case v of JArr xs \<Rightarrow> Some TypeError | JObj fs \<Rightarrow> Some TypeError | _ \<Rightarrow> None)
      else if k = ''Function'' then Some EvalError
      else Some TypeError)"

text \<open>
  An embedded page whose host is \<^verbatim>\<open>https://host.example\<close> and accepts every message,
  and the same page with a host channel that rejects every message. The one number
  beyond the safe range that the example's host sends is \<^verbatim>\<open>1e21\<close>.
\<close>

definition example_world :: world where
  "example_world =
     \<lparr>embedded = True,
      referrer = ''https://host.example/chat'',
      url_origin = (\<lambda>u. if u = ''https://host.example/chat''
                          then Inr ''https://host.example'' else Inl TypeError),
      post_throws = (\<lambda>m org. None),
      number_to_string = (\<lambda>n. ''1e+21''),
      builtin_call = plain_builtin_call,
      function_property = strict_function_property,
      function_assign = strict_function_assign,
      body_scrollHeight = 640,
      root_scrollHeight = 480\<rparr>"

definition rejecting_world :: world where
  "rejecting_world = example_world\<lparr>post_throws := (\<lambda>m org. Some DataCloneError)\<rparr>"

definition example_config :: kit_config where
  "example_config =
     \<lparr>pageId = JStr ''loan-form-v1'', onReady = Some (JsFun ''onReady''),
      onError = Some (JsFun ''onError'')\<rparr>"

definition example_session :: chatkit where
  "example_session =
     \<lparr>config = Some example_config, parentOrigin = Some ''https://host.example'',
      messageQueue = [], commandHandlers = \<lparr>own = (\<lambda>k. None), proto = None\<rparr>,
      isReady = False\<rparr>"

definition ready_event :: event where
  "ready_event =
     \<lparr>data = JObj [(''type'', JStr ''parent_ready'')], origin = ''https://host.example''\<rparr>"

definition command_event :: "string \<Rightarrow> string \<Rightarrow> event" where
  "command_event name sender =
     \<lparr>data = JObj [(''type'', JStr ''parent_command''), (''command'', JStr name),
                  (''params'', JObj [])],
      origin = sender\<rparr>"

section \<open>Properties\<close>

subsection \<open>The outbound channel\<close>

lemma effects_of_triple: "effects_of (c, s, es) = es"
  by (simp add: effects_of_def)

lemma state_of_triple: "state_of (c, s, es) = s"
  by (simp add: state_of_def)

lemma completion_of_triple: "completion_of (c, s, es) = c"
  by (simp add: completion_of_def)

lemma sendToParent_state: "state_of (sendToParent w m s) = s"
  by (simp add: sendToParent_def state_of_def Let_def split: option.splits)

lemma sendToParent_result:
  "config s = Some c \<Longrightarrow> sendToParent w m s = (Normal, s, effects_of (sendToParent w m s))"
  by (simp add: sendToParent_def effects_of_def Let_def split: option.splits)

lemma sendToParent_queue_irrelevant:
  "effects_of (sendToParent w m (s\<lparr>messageQueue := q\<rparr>)) = effects_of (sendToParent w m s)"
  by (simp add: sendToParent_def effects_of_def Let_def split: option.splits)

lemma attempted_append: "attempted (xs @ ys) = attempted xs @ attempted ys"
  by (induction xs rule: attempted.induct) simp_all

lemma attempted_sendToParent:
  "attempted (effects_of (sendToParent w m s)) = (if embedded w then [m] else [])"
  by (simp add: sendToParent_def effects_of_def Let_def split: option.splits)

lemma delivered_sendToParent:
  "delivered (effects_of (sendToParent w m s)) =
     (if embedded w \<and> post_throws w m (parentOrigin s) = None then [m] else [])"
  by (simp add: sendToParent_def effects_of_def Let_def split: option.splits)

text \<open>
  C6. When \<^verbatim>\<open>postMessage\<close> throws during a send of an initialised session, the
  exception is caught in \<^verbatim>\<open>_sendToParent\<close>: the error is logged, \<^verbatim>\<open>onError\<close> is
  called with it when the configuration has one, the method completes normally, and the
  object (ready flag, pending queue, handler table, resolved origin, configuration) is
  the one it was called on. The same holds for the public methods that send directly.
\<close>

theorem delivery_failure_is_contained:
  assumes "embedded w" and "config s = Some c"
    and "post_throws w m (parentOrigin s) = Some e"
  shows "sendToParent w m s =
           (Normal, s,
            [PostMessage m (parentOrigin s) (Some e),
             ConsoleError ''[ChatKit] Failed to send message:'' e] @
            (case onError c of None \<Rightarrow> [] | Some f \<Rightarrow> [CallOnError f e]))
       \<and> completion_of (resize w height s) = Normal \<and> state_of (resize w height s) = s
       \<and> completion_of (close w s) = Normal \<and> state_of (close w s) = s
       \<and> (isReady s \<longrightarrow>
            completion_of (sendData w ts dat options s) = Normal
          \<and> state_of (sendData w ts dat options s) = s)"
proof -
  have send: "sendToParent w m s =
           (Normal, s,
            [PostMessage m (parentOrigin s) (Some e),
             ConsoleError ''[ChatKit] Failed to send message:'' e] @
            (case onError c of None \<Rightarrow> [] | Some f \<Rightarrow> [CallOnError f e]))"
    using assms by (simp add: sendToParent_def split: option.splits)
  have any: "\<And>x. completion_of (sendToParent w x s) = Normal \<and> state_of (sendToParent w x s) = s"
  proof -
    fix x
    have "sendToParent w x s = (Normal, s, effects_of (sendToParent w x s))"
      by (rule sendToParent_result [OF assms(2)])
    then show "completion_of (sendToParent w x s) = Normal \<and> state_of (sendToParent w x s) = s"
      by (metis completion_of_triple state_of_triple)
  qed
  have r: "completion_of (resize w height s) = Normal \<and> state_of (resize w height s) = s"
    using assms(2) any by (simp add: resize_def)
  have c: "completion_of (close w s) = Normal \<and> state_of (close w s) = s"
    using assms(2) any by (simp add: close_def)
  have d: "isReady s \<Longrightarrow> completion_of (sendData w ts dat options s) = Normal
             \<and> state_of (sendData w ts dat options s) = s"
    using assms(2) any by (simp add: sendData_def)
  show ?thesis using send r c d by simp
qed

theorem delivery_failure_is_contained_witness:
  "embedded rejecting_world
   \<and> config (example_session\<lparr>isReady := True\<rparr>) = Some example_config
   \<and> post_throws rejecting_world (closeMessage example_config)
        (parentOrigin (example_session\<lparr>isReady := True\<rparr>)) = Some DataCloneError
   \<and> sendToParent rejecting_world (closeMessage example_config)
        (example_session\<lparr>isReady := True\<rparr>) =
       (Normal, example_session\<lparr>isReady := True\<rparr>,
        [PostMessage (closeMessage example_config) (Some ''https://host.example'')
           (Some DataCloneError),
         ConsoleError ''[ChatKit] Failed to send message:'' DataCloneError,
         CallOnError (JsFun ''onError'') DataCloneError])
   \<and> completion_of (sendData rejecting_world ''2023-11-14T22:13:20.000Z'' (JNum 1) JUndefined
        (example_session\<lparr>isReady := True\<rparr>)) = Normal
   \<and> state_of (sendData rejecting_world ''2023-11-14T22:13:20.000Z'' (JNum 1) JUndefined
        (example_session\<lparr>isReady := True\<rparr>)) = example_session\<lparr>isReady := True\<rparr>"
proof -
  have h1: "embedded rejecting_world"
    by (simp add: rejecting_world_def example_world_def)
  have h2: "config (example_session\<lparr>isReady := True\<rparr>) = Some example_config"
    by (simp add: example_session_def)
  have h3: "post_throws rejecting_world (closeMessage example_config)
        (parentOrigin (example_session\<lparr>isReady := True\<rparr>)) = Some DataCloneError"
    by (simp add: rejecting_world_def example_world_def)
  have h4: "isReady (example_session\<lparr>isReady := True\<rparr>)" by simp
  have h5: "parentOrigin (example_session\<lparr>isReady := True\<rparr>) = Some ''https://host.example''"
    by (simp add: example_session_def)
  have h6: "onError example_config = Some (JsFun ''onError'')"
    by (simp add: example_config_def)
  show ?thesis
    using delivery_failure_is_contained [OF h1 h2 h3,
        of "JNum 480" "''2023-11-14T22:13:20.000Z''" "JNum 1" JUndefined] h1 h2 h3 h4 h5 h6
    by simp
qed

text \<open>
  C5. In an embedded page, \<^verbatim>\<open>resize\<close> and \<^verbatim>\<open>close\<close> called on an initialised
  session before the ready transition hand their message to \<^verbatim>\<open>postMessage\<close> during
  the call (the host receives it unless that call throws), and leave the object, and so
  the contents and length of the pending queue, as they were.
\<close>

theorem resize_close_bypass_queue:
  assumes "embedded w" and "config s = Some c" and "\<not> isReady s"
  shows "resize w height s =
           (Normal, s, effects_of (sendToParent w (resizeMessage c height) s))
       \<and> attempted (effects_of (resize w height s)) = [resizeMessage c height]
       \<and> delivered (effects_of (resize w height s)) =
           (if post_throws w (resizeMessage c height) (parentOrigin s) = None
            then [resizeMessage c height] else [])
       \<and> messageQueue (state_of (resize w height s)) = messageQueue s
       \<and> close w s = (Normal, s, effects_of (sendToParent w (closeMessage c) s))
       \<and> attempted (effects_of (close w s)) = [closeMessage c]
       \<and> delivered (effects_of (close w s)) =
           (if post_throws w (closeMessage c) (parentOrigin s) = None
            then [closeMessage c] else [])
       \<and> messageQueue (state_of (close w s)) = messageQueue s"
proof -
  have r: "resize w height s =
      (Normal, s, effects_of (sendToParent w (resizeMessage c height) s))"
    using assms(2) sendToParent_result [OF assms(2)] by (simp add: resize_def)
  have c: "close w s = (Normal, s, effects_of (sendToParent w (closeMessage c) s))"
    using assms(2) sendToParent_result [OF assms(2)] by (simp add: close_def)
  have ra: "attempted (effects_of (resize w height s)) = [resizeMessage c height]"
    using assms(1) by (simp add: r effects_of_triple attempted_sendToParent)
  have ca: "attempted (effects_of (close w s)) = [closeMessage c]"
    using assms(1) by (simp add: c effects_of_triple attempted_sendToParent)
  have rd: "delivered (effects_of (resize w height s)) =
           (if post_throws w (resizeMessage c height) (parentOrigin s) = None
            then [resizeMessage c height] else [])"
    using assms(1) by (simp add: r effects_of_triple delivered_sendToParent)
  have cd: "delivered (effects_of (close w s)) =
           (if post_throws w (closeMessage c) (parentOrigin s) = None
            then [closeMessage c] else [])"
    using assms(1) by (simp add: c effects_of_triple delivered_sendToParent)
  have rq: "messageQueue (state_of (resize w height s)) = messageQueue s"
    by (simp add: r state_of_triple)
  have cq: "messageQueue (state_of (close w s)) = messageQueue s"
    by (simp add: c state_of_triple)
  from r c ra ca rd cd rq cq show ?thesis by blast
qed

theorem resize_close_bypass_queue_witness:
  "embedded example_world
   \<and> config (example_session\<lparr>messageQueue := [JStr ''queued'']\<rparr>) = Some example_config
   \<and> \<not> isReady (example_session\<lparr>messageQueue := [JStr ''queued'']\<rparr>)
   \<and> resize example_world (JNum 480) (example_session\<lparr>messageQueue := [JStr ''queued'']\<rparr>) =
       (Normal, example_session\<lparr>messageQueue := [JStr ''queued'']\<rparr>,
        [PostMessage
           (JObj [(''type'', JStr ''embed_resize''), (''pageId'', JStr ''loan-form-v1''),
                  (''height'', JNum 480)])
           (Some ''https://host.example'') None])
   \<and> messageQueue (state_of (resize example_world (JNum 480)
        (example_session\<lparr>messageQueue := [JStr ''queued'']\<rparr>))) = [JStr ''queued'']
   \<and> delivered (effects_of (close example_world
        (example_session\<lparr>messageQueue := [JStr ''queued'']\<rparr>))) =
       [JObj [(''type'', JStr ''embed_close''), (''pageId'', JStr ''loan-form-v1'')]]
   \<and> messageQueue (state_of (close example_world
        (example_session\<lparr>messageQueue := [JStr ''queued'']\<rparr>))) = [JStr ''queued'']"
proof -
  let ?s = "example_session\<lparr>messageQueue := [JStr ''queued'']\<rparr>"
  have h1: "embedded example_world" by (simp add: example_world_def)
  have h2: "config ?s = Some example_config" by (simp add: example_session_def)
  have h3: "\<not> isReady ?s" by (simp add: example_session_def)
  have e1: "effects_of (sendToParent example_world
              (resizeMessage example_config (JNum 480)) ?s) =
            [PostMessage
               (JObj [(''type'', JStr ''embed_resize''), (''pageId'', JStr ''loan-form-v1''),
                      (''height'', JNum 480)])
               (Some ''https://host.example'') None]"
    by (simp add: sendToParent_def effects_of_def example_world_def example_session_def
        resizeMessage_def example_config_def)
  have e2: "post_throws example_world (closeMessage example_config) (parentOrigin ?s) = None"
    by (simp add: example_world_def)
  have e3: "closeMessage example_config =
      JObj [(''type'', JStr ''embed_close''), (''pageId'', JStr ''loan-form-v1'')]"
    by (simp add: closeMessage_def example_config_def)
  have e4: "messageQueue ?s = [JStr ''queued'']" by simp
  note t = resize_close_bypass_queue [OF h1 h2 h3, of "JNum 480"]
  have w1: "resize example_world (JNum 480) ?s =
       (Normal, ?s,
        [PostMessage
           (JObj [(''type'', JStr ''embed_resize''), (''pageId'', JStr ''loan-form-v1''),
                  (''height'', JNum 480)])
           (Some ''https://host.example'') None])"
    using t [THEN conjunct1] e1 by simp
  have w2: "messageQueue (state_of (resize example_world (JNum 480) ?s)) = [JStr ''queued'']"
    using t [THEN conjunct2, THEN conjunct2, THEN conjunct2, THEN conjunct1] e4 by simp
  have w3: "delivered (effects_of (close example_world ?s)) =
       [JObj [(''type'', JStr ''embed_close''), (''pageId'', JStr ''loan-form-v1'')]]"
    using t [THEN conjunct2, THEN conjunct2, THEN conjunct2, THEN conjunct2,
             THEN conjunct2, THEN conjunct2, THEN conjunct1] e2 e3
    by simp
  have w4: "messageQueue (state_of (close example_world ?s)) = [JStr ''queued'']"
    using t [THEN conjunct2, THEN conjunct2, THEN conjunct2, THEN conjunct2,
             THEN conjunct2, THEN conjunct2, THEN conjunct2] e4
    by simp
  from h1 h2 h3 w1 w2 w3 w4 show ?thesis by blast
qed

subsection \<open>The inbound dispatcher\<close>

text \<open>
  C7. An inbound message that is falsy (null, undefined, the empty string, zero, false),
  that is not of type object, or whose \<^verbatim>\<open>type\<close> property is neither
  \<^verbatim>\<open>parent_ready\<close> nor \<^verbatim>\<open>parent_command\<close> leaves the object as it was; no
  callback or handler is called and nothing is written to the console.
\<close>

theorem malformed_message_is_ignored:
  assumes "js_not (data ev) \<or> typeof (data ev) \<noteq> ''object''
           \<or> (get_prop (data ev) ''type'' \<noteq> JStr ''parent_ready''
              \<and> get_prop (data ev) ''type'' \<noteq> JStr ''parent_command'')"
  shows "handleMessage w ev s = (Normal, s, [])"
proof (cases "js_not (data ev) \<or> typeof (data ev) \<noteq> ''object''")
  case True
  then show ?thesis by (simp add: handleMessage_def)
next
  case False
  with assms have other: "get_prop (data ev) ''type'' \<noteq> JStr ''parent_ready''"
      "get_prop (data ev) ''type'' \<noteq> JStr ''parent_command''"
    by blast+
  have "handleReady w (data ev) s = (Normal, s, [])"
    using other(1) by (simp add: handleReady_def)
  moreover have "handleCommand w (data ev) s = (Normal, s, [])"
    using other(2) by (simp add: handleCommand_def)
  ultimately show ?thesis
    using False by (simp add: handleMessage_def and_then_def)
qed

theorem malformed_message_is_ignored_witness:
  "handleMessage example_world \<lparr>data = JNull, origin = ''https://host.example''\<rparr>
     example_session = (Normal, example_session, [])
   \<and> handleMessage example_world
       \<lparr>data = JStr ''parent_ready'', origin = ''https://host.example''\<rparr>
       example_session = (Normal, example_session, [])
   \<and> handleMessage example_world
       \<lparr>data = JObj [(''type'', JStr ''parent_reset''), (''command'', JStr ''reset'')],
        origin = ''https://host.example''\<rparr>
       example_session = (Normal, example_session, [])
   \<and> handleMessage example_world
       \<lparr>data = JObj [(''kind'', JStr ''parent_ready'')], origin = ''https://host.example''\<rparr>
       example_session = (Normal, example_session, [])"
proof -
  have a: "handleMessage example_world \<lparr>data = JNull, origin = ''https://host.example''\<rparr>
     example_session = (Normal, example_session, [])"
    by (rule malformed_message_is_ignored) (simp add: js_not_def)
  have b: "handleMessage example_world
       \<lparr>data = JStr ''parent_ready'', origin = ''https://host.example''\<rparr>
       example_session = (Normal, example_session, [])"
    by (rule malformed_message_is_ignored) simp
  have c: "handleMessage example_world
       \<lparr>data = JObj [(''type'', JStr ''parent_reset''), (''command'', JStr ''reset'')],
        origin = ''https://host.example''\<rparr>
       example_session = (Normal, example_session, [])"
    by (rule malformed_message_is_ignored) simp
  have d: "handleMessage example_world
       \<lparr>data = JObj [(''kind'', JStr ''parent_ready'')], origin = ''https://host.example''\<rparr>
       example_session = (Normal, example_session, [])"
    by (rule malformed_message_is_ignored) simp
  from a b c d show ?thesis by blast
qed

text \<open>
  C10. \<^verbatim>\<open>_handleMessage\<close> reads \<^verbatim>\<open>event.data\<close> only: two events with the same
  data, whatever origins delivered them, complete the same way, leave the same object
  (ready flag, pending queue, handler table) and cause the same effects (messages sent,
  callbacks and handlers called, console output).
\<close>

theorem dispatcher_ignores_origin:
  assumes "data ev1 = data ev2"
  shows "handleMessage w ev1 s = handleMessage w ev2 s"
  using assms by (simp add: handleMessage_def)

theorem dispatcher_ignores_origin_witness:
  "data (ready_event\<lparr>origin := ''https://evil.example''\<rparr>) = data ready_event
   \<and> origin (ready_event\<lparr>origin := ''https://evil.example''\<rparr>) \<noteq> origin ready_event
   \<and> handleMessage example_world (ready_event\<lparr>origin := ''https://evil.example''\<rparr>)
        example_session =
      handleMessage example_world ready_event example_session"
proof -
  have h: "data (ready_event\<lparr>origin := ''https://evil.example''\<rparr>) = data ready_event"
    by simp
  have d: "origin (ready_event\<lparr>origin := ''https://evil.example''\<rparr>) \<noteq> origin ready_event"
    by (simp add: ready_event_def)
  from dispatcher_ignores_origin [OF h] h d show ?thesis by blast
qed

subsection \<open>What the methods leave unchanged\<close>

lemma flushQueue_empty: "messageQueue s = [] \<Longrightarrow> flushQueue w s = (Normal, s, [])"
  by (simp add: flushQueue.simps)

lemma flushQueue_initialised:
  "config s = Some c \<Longrightarrow>
   flushQueue w s =
     (Normal, s\<lparr>messageQueue := []\<rparr>,
      concat (map (\<lambda>m. effects_of (sendToParent w m s)) (messageQueue s)))"
proof (induction "messageQueue s" arbitrary: s)
  case Nil
  then have "s\<lparr>messageQueue := []\<rparr> = s" by simp
  with Nil show ?case by (simp add: flushQueue.simps [of w s])
next
  case (Cons m rest)
  let ?s1 = "s\<lparr>messageQueue := rest\<rparr>"
  have c1: "config ?s1 = Some c" using Cons.prems by simp
  have send: "sendToParent w m ?s1 = (Normal, ?s1, effects_of (sendToParent w m s))"
    using sendToParent_result [OF c1, of w m] by (simp add: sendToParent_queue_irrelevant)
  have "rest = messageQueue ?s1" by simp
  from Cons.hyps(1) [OF this c1]
  have rec: "flushQueue w ?s1 =
      (Normal, s\<lparr>messageQueue := []\<rparr>,
       concat (map (\<lambda>m. effects_of (sendToParent w m s)) rest))"
    by (simp add: sendToParent_queue_irrelevant)
  show ?case
    using Cons.hyps(2) [symmetric] send rec by (simp add: flushQueue.simps [of w s])
qed

lemma flushQueue_frame: "\<exists>q. state_of (flushQueue w s) = s\<lparr>messageQueue := q\<rparr>"
proof (induction "messageQueue s" arbitrary: s)
  case Nil
  then have "flushQueue w s = (Normal, s, [])" by (simp add: flushQueue_empty)
  moreover have "s\<lparr>messageQueue := messageQueue s\<rparr> = s" by simp
  ultimately show ?case by (metis state_of_triple)
next
  case (Cons m rest)
  let ?s1 = "s\<lparr>messageQueue := rest\<rparr>"
  obtain c es where send: "sendToParent w m ?s1 = (c, ?s1, es)"
    by (metis prod_cases3 sendToParent_state state_of_triple)
  have "rest = messageQueue ?s1" by simp
  from Cons.hyps(1) [OF this]
  obtain q where rec: "state_of (flushQueue w ?s1) = s\<lparr>messageQueue := q\<rparr>"
    by auto
  show ?case
  proof (cases c)
    case Normal
    have "state_of (flushQueue w s) = state_of (flushQueue w ?s1)"
      using Cons.hyps(2) [symmetric] send Normal
      by (simp add: flushQueue.simps [of w s] state_of_def split: prod.splits)
    with rec show ?thesis by auto
  next
    case (Throw e)
    have "state_of (flushQueue w s) = ?s1"
      using Cons.hyps(2) [symmetric] send Throw
      by (simp add: flushQueue.simps [of w s] state_of_def)
    then show ?thesis by auto
  qed
qed

lemma state_of_and_then:
  "state_of (and_then r k) =
     (case completion_of r of
        Normal \<Rightarrow> state_of (k (state_of r))
      | Throw e \<Rightarrow> state_of r)"
  by (cases r; cases "fst r")
     (auto simp: and_then_def state_of_def completion_of_def split: prod.splits)

lemma handleCommand_state: "state_of (handleCommand w m s) = s"
  by (simp add: handleCommand_def state_of_def Let_def
      split: sum.splits handler_val.splits option.splits)

lemma handleReady_frame:
  "\<exists>q. state_of (handleReady w m s) = s \<or>
       state_of (handleReady w m s) = s\<lparr>isReady := True, messageQueue := q\<rparr>"
proof (cases "get_prop m ''type'' = JStr ''parent_ready''")
  case False
  then show ?thesis by (simp add: handleReady_def state_of_def)
next
  case True
  obtain q where q: "state_of (flushQueue w (s\<lparr>isReady := True\<rparr>)) =
      s\<lparr>isReady := True, messageQueue := q\<rparr>"
    using flushQueue_frame [of w "s\<lparr>isReady := True\<rparr>"] by auto
  have "state_of (handleReady w m s) = s\<lparr>isReady := True, messageQueue := q\<rparr>"
    using True q
    by (simp add: handleReady_def state_of_and_then state_of_triple
        split: completion.splits option.splits)
  then show ?thesis by blast
qed

lemma handleMessage_frame:
  "\<exists>q. state_of (handleMessage w ev s) = s \<or>
       state_of (handleMessage w ev s) = s\<lparr>isReady := True, messageQueue := q\<rparr>"
proof -
  obtain q where q: "state_of (handleReady w (data ev) s) = s \<or>
       state_of (handleReady w (data ev) s) = s\<lparr>isReady := True, messageQueue := q\<rparr>"
    using handleReady_frame by blast
  have "state_of (handleMessage w ev s) = s \<or>
        state_of (handleMessage w ev s) = state_of (handleReady w (data ev) s)"
    by (simp add: handleMessage_def Let_def state_of_and_then handleCommand_state
        state_of_triple split: completion.splits)
  with q show ?thesis by metis
qed

lemma detectParentOrigin_cases:
  "state_of (detectParentOrigin w s) = s \<or>
   (\<exists>x. state_of (detectParentOrigin w s) = s\<lparr>parentOrigin := Some x\<rparr>)"
  by (cases "url_origin w (referrer w)") (auto simp: detectParentOrigin_def state_of_def)

lemma detectParentOrigin_frame:
  "\<exists>o'. state_of (detectParentOrigin w s) = s\<lparr>parentOrigin := o'\<rparr>"
proof -
  have "s\<lparr>parentOrigin := parentOrigin s\<rparr> = s" by simp
  with detectParentOrigin_cases [of w s] show ?thesis by metis
qed

lemma init_frame:
  "\<exists>o'. state_of (init w now ts cfg s) =
         s\<lparr>config := Some (resolve_config now cfg), parentOrigin := o'\<rparr>"
proof -
  obtain o' where o': "state_of (detectParentOrigin w (s\<lparr>config := Some (resolve_config now cfg)\<rparr>)) =
      s\<lparr>config := Some (resolve_config now cfg), parentOrigin := o'\<rparr>"
    using detectParentOrigin_frame by blast
  have "state_of (init w now ts cfg s) =
        state_of (detectParentOrigin w (s\<lparr>config := Some (resolve_config now cfg)\<rparr>))"
    by (simp add: init_def Let_def state_of_and_then state_of_triple completion_of_triple
        sendToParent_state split: completion.splits)
  with o' show ?thesis by auto
qed

lemma sendData_frame:
  "state_of (sendData w ts dat options s) = s \<or>
   (\<exists>c. config s = Some c \<and> \<not> isReady s \<and>
        state_of (sendData w ts dat options s) =
          s\<lparr>messageQueue := messageQueue s @ [dataMessage c ts dat options]\<rparr>)"
  by (auto simp: sendData_def Let_def state_of_triple sendToParent_state split: option.splits)

lemma resize_state: "state_of (resize w height s) = s"
  by (simp add: resize_def state_of_triple sendToParent_state split: option.splits)

lemma close_state: "state_of (close w s) = s"
  by (simp add: close_def state_of_triple sendToParent_state split: option.splits)

lemma onCommand_frame:
  "\<exists>r. state_of (onCommand w command handler s) = s\<lparr>commandHandlers := r\<rparr>"
proof (cases "set_handler w (commandHandlers s) command handler")
  case (Inl e)
  have "s\<lparr>commandHandlers := commandHandlers s\<rparr> = s" by simp
  with Inl show ?thesis by (metis onCommand_def sum.case(1) state_of_triple)
next
  case (Inr r)
  then show ?thesis by (auto simp: onCommand_def state_of_triple)
qed

subsection \<open>Sequences of calls\<close>

lemma state_after_Nil: "state_after w [] s = s"
  by (simp add: state_after_def)

lemma state_after_Cons:
  "state_after w (c # cs) s = state_after w cs (state_of (run_call w c s))"
  by (simp add: state_after_def state_of_def split: prod.splits)

lemma state_after_append:
  "state_after w (cs @ cs') s = state_after w cs' (state_after w cs s)"
  by (induction cs arbitrary: s) (simp_all add: state_after_Nil state_after_Cons)

lemma sendMessage_frame:
  "state_of (sendMessage w ts txt_val kind s) = s \<or>
   (\<exists>c m. config s = Some c \<and> \<not> isReady s \<and>
        state_of (sendMessage w ts txt_val kind s) =
          s\<lparr>messageQueue := messageQueue s @ [m]\<rparr>)"
  unfolding sendMessage_def using sendData_frame by blast

lemma run_call_ready:
  assumes r: "isReady s"
  shows "isReady (state_of (run_call w c s))"
proof (cases c)
  case (Init now ts cfg)
  then show ?thesis using r init_frame [of w now ts cfg s] by auto
next
  case (SendData ts dat options)
  then show ?thesis using r sendData_frame [of w ts dat options s] by auto
next
  case (SendMessage ts txt_val kind)
  then show ?thesis
    using r sendMessage_frame [of w ts txt_val kind s] by auto
next
  case (OnCommand command handler)
  then show ?thesis using r onCommand_frame [of w command handler s] by auto
next
  case (Resize height)
  then show ?thesis using r by (simp add: resize_state)
next
  case AutoResize
  then show ?thesis using r by (simp add: autoResize_def resize_state)
next
  case Close
  then show ?thesis using r by (simp add: close_state)
next
  case (Dispatch ev)
  then show ?thesis using r handleMessage_frame [of w ev s] by auto
qed


lemma state_after_ready: "isReady s \<Longrightarrow> isReady (state_after w cs s)"
  by (induction cs arbitrary: s) (simp_all add: state_after_Nil state_after_Cons run_call_ready)

lemma run_call_invariant:
  assumes inv: "queue_invariant s"
  shows "queue_invariant (state_of (run_call w c s))"
proof (cases c)
  case (Init now ts cfg)
  then show ?thesis
    using inv init_frame [of w now ts cfg s] by (auto simp: queue_invariant_def)
next
  case (SendData ts dat options)
  then show ?thesis
    using inv sendData_frame [of w ts dat options s] by (auto simp: queue_invariant_def)
next
  case (SendMessage ts txt_val kind)
  then show ?thesis
    using inv sendMessage_frame [of w ts txt_val kind s] by (auto simp: queue_invariant_def)
next
  case (OnCommand command handler)
  then show ?thesis
    using inv onCommand_frame [of w command handler s] by (auto simp: queue_invariant_def)
next
  case (Resize height)
  then show ?thesis using inv by (simp add: resize_state)
next
  case AutoResize
  then show ?thesis using inv by (simp add: autoResize_def resize_state)
next
  case Close
  then show ?thesis using inv by (simp add: close_state)
next
  case (Dispatch ev)
  show ?thesis
  proof (cases "is_parent_ready ev")
    case False
    have "state_of (handleMessage w ev s) = s"
      using False
      by (auto simp: handleMessage_def handleReady_def is_parent_ready_def js_not_def Let_def
          state_of_and_then state_of_triple completion_of_triple handleCommand_state)
    with inv Dispatch show ?thesis by simp
  next
    case True
    have flushed: "state_of (flushQueue w (s\<lparr>isReady := True\<rparr>)) =
        s\<lparr>isReady := True, messageQueue := []\<rparr>
        \<and> completion_of (flushQueue w (s\<lparr>isReady := True\<rparr>)) = Normal"
    proof (cases "config s")
      case None
      with inv have "messageQueue s = []" by (auto simp: queue_invariant_def)
      then have "flushQueue w (s\<lparr>isReady := True\<rparr>) = (Normal, s\<lparr>isReady := True\<rparr>, [])"
        by (simp add: flushQueue_empty)
      moreover have "s\<lparr>isReady := True, messageQueue := []\<rparr> = s\<lparr>isReady := True\<rparr>"
        using \<open>messageQueue s = []\<close> by simp
      ultimately show ?thesis by (simp add: state_of_triple completion_of_triple)
    next
      case (Some c)
      then have "config (s\<lparr>isReady := True\<rparr>) = Some c" by simp
      from flushQueue_initialised [OF this, of w]
      show ?thesis by (simp add: state_of_triple completion_of_triple)
    qed
    have "state_of (handleMessage w ev s) = s\<lparr>isReady := True, messageQueue := []\<rparr>"
      using True flushed
      by (auto simp: handleMessage_def handleReady_def is_parent_ready_def js_not_def Let_def
          state_of_and_then state_of_triple completion_of_triple handleCommand_state
          split: completion.splits option.splits)
    with inv Dispatch show ?thesis by (simp add: queue_invariant_def)
  qed
qed

lemma state_after_invariant:
  "queue_invariant s \<Longrightarrow> queue_invariant (state_after w cs s)"
  by (induction cs arbitrary: s)
     (simp_all add: state_after_Nil state_after_Cons run_call_invariant)

lemma initial_invariant: "queue_invariant initial"
  by (simp add: queue_invariant_def initial_def)

subsection \<open>The handshake\<close>

lemma sendToParent_ready_irrelevant:
  "effects_of (sendToParent w m (s\<lparr>isReady := b\<rparr>)) = effects_of (sendToParent w m s)"
  by (simp add: sendToParent_def effects_of_def Let_def split: option.splits)

lemma handleCommand_other_type:
  "get_prop m ''type'' \<noteq> JStr ''parent_command'' \<Longrightarrow> handleCommand w m s = (Normal, s, [])"
  by (simp add: handleCommand_def)

lemma handleReady_other_type:
  "get_prop m ''type'' \<noteq> JStr ''parent_ready'' \<Longrightarrow> handleReady w m s = (Normal, s, [])"
  by (simp add: handleReady_def)

lemma handleMessage_well_formed:
  "truthy (data ev) \<Longrightarrow> typeof (data ev) = ''object'' \<Longrightarrow>
   handleMessage w ev s = and_then (handleReady w (data ev) s) (handleCommand w (data ev))"
  by (simp add: handleMessage_def js_not_def Let_def)

lemma parent_ready_result:
  assumes ev: "is_parent_ready ev" and cfg: "config s = Some c"
  shows "handleMessage w ev s =
           (Normal, s\<lparr>isReady := True, messageQueue := []\<rparr>,
            concat (map (\<lambda>m. effects_of (sendToParent w m s)) (messageQueue s)) @
            (case onReady c of None \<Rightarrow> [] | Some f \<Rightarrow> [CallOnReady f]))"
proof -
  have ty: "get_prop (data ev) ''type'' = JStr ''parent_ready''"
    using ev by (simp add: is_parent_ready_def)
  have "config (s\<lparr>isReady := True\<rparr>) = Some c" using cfg by simp
  from flushQueue_initialised [OF this, of w]
  have flushed: "flushQueue w (s\<lparr>isReady := True\<rparr>) =
      (Normal, s\<lparr>isReady := True, messageQueue := []\<rparr>,
       concat (map (\<lambda>m. effects_of (sendToParent w m s)) (messageQueue s)))"
    by (simp add: sendToParent_ready_irrelevant)
  have ready: "handleReady w (data ev) s =
      (Normal, s\<lparr>isReady := True, messageQueue := []\<rparr>,
       concat (map (\<lambda>m. effects_of (sendToParent w m s)) (messageQueue s)) @
       (case onReady c of None \<Rightarrow> [] | Some f \<Rightarrow> [CallOnReady f]))"
    using ty cfg flushed by (simp add: handleReady_def and_then_def split: option.splits)
  have cmd: "\<And>s'. handleCommand w (data ev) s' = (Normal, s', [])"
    using ty by (simp add: handleCommand_other_type)
  have "handleMessage w ev s = and_then (handleReady w (data ev) s) (handleCommand w (data ev))"
    using ev by (simp add: handleMessage_well_formed is_parent_ready_def)
  then show ?thesis by (simp add: ready cmd and_then_def)
qed

subsection \<open>Command handlers\<close>

lemma set_handler_plain:
  "proto r = None \<Longrightarrow> name \<noteq> ''__proto__'' \<Longrightarrow>
   set_handler w r name h = Inr (r\<lparr>own := (own r)(name \<mapsto> h)\<rparr>)"
  by (simp add: set_handler_def split: option.splits)

lemma set_handler_own:
  "own r name = Some h0 \<Longrightarrow>
   set_handler w r name h = Inr (r\<lparr>own := (own r)(name \<mapsto> h)\<rparr>)"
  by (simp add: set_handler_def)

lemma set_handler_other:
  "set_handler w r k h' = Inr r' \<Longrightarrow> k \<noteq> name \<Longrightarrow> own r' name = own r name"
  by (auto simp: set_handler_def split: option.splits assignment.splits if_splits)

lemma onCommand_other:
  "k \<noteq> name \<Longrightarrow>
   own (commandHandlers (state_of (onCommand w k h' s))) name = own (commandHandlers s) name"
  by (cases "set_handler w (commandHandlers s) k h'")
     (auto simp: onCommand_def state_of_triple dest: set_handler_other)

lemma get_handler_own: "own r name = Some h \<Longrightarrow> get_handler w r name = Inr (HFun h)"
  by (simp add: get_handler_def)

lemma run_call_own:
  assumes "\<not> registers name c"
  shows "own (commandHandlers (state_of (run_call w c s))) name = own (commandHandlers s) name"
proof (cases c)
  case (Init now ts cfg)
  then show ?thesis using init_frame [of w now ts cfg s] by auto
next
  case (SendData ts dat options)
  then show ?thesis using sendData_frame [of w ts dat options s] by auto
next
  case (SendMessage ts txt_val kind)
  then show ?thesis using sendMessage_frame [of w ts txt_val kind s] by auto
next
  case (OnCommand command handler)
  then show ?thesis using assms by (simp add: onCommand_other)
next
  case (Resize height)
  then show ?thesis by (simp add: resize_state)
next
  case AutoResize
  then show ?thesis by (simp add: autoResize_def resize_state)
next
  case Close
  then show ?thesis by (simp add: close_state)
next
  case (Dispatch ev)
  then show ?thesis using handleMessage_frame [of w ev s] by auto
qed

lemma state_after_own:
  "list_all (\<lambda>c. \<not> registers name c) cs \<Longrightarrow>
   own (commandHandlers (state_after w cs s)) name = own (commandHandlers s) name"
  by (induction cs arbitrary: s)
     (simp_all add: state_after_Nil state_after_Cons run_call_own)

lemma registered_command_result:
  assumes ev: "is_command_for w name ev" and reg: "own (commandHandlers s) name = Some h"
  shows "handleMessage w ev s = (Normal, s, [CallHandler h (get_prop (data ev) ''params'')])"
proof -
  have ty: "get_prop (data ev) ''type'' = JStr ''parent_command''"
    and key: "to_property_key (number_to_string w) (get_prop (data ev) ''command'') = Inr name"
    using ev by (simp_all add: is_command_for_def)
  have "handleReady w (data ev) s = (Normal, s, [])"
    using ty by (simp add: handleReady_other_type)
  moreover have "handleCommand w (data ev) s =
      (Normal, s, [CallHandler h (get_prop (data ev) ''params'')])"
    using ty key get_handler_own [OF reg, of w] by (simp add: handleCommand_def)
  moreover have "handleMessage w ev s =
      and_then (handleReady w (data ev) s) (handleCommand w (data ev))"
    using ev by (simp add: handleMessage_well_formed is_command_for_def)
  ultimately show ?thesis by (simp add: and_then_def)
qed

lemma twice_registered:
  assumes "own (commandHandlers s0) name \<noteq> None
           \<or> proto (commandHandlers s0) = None \<and> name \<noteq> ''__proto__''"
  shows "own (commandHandlers (state_after w [OnCommand name h1, OnCommand name h2] s0)) name =
         Some h2"
proof -
  let ?s1 = "state_of (onCommand w name h1 s0)"
  have "set_handler w (commandHandlers s0) name h1 =
      Inr ((commandHandlers s0)\<lparr>own := (own (commandHandlers s0))(name \<mapsto> h1)\<rparr>)"
    using assms set_handler_plain [of "commandHandlers s0" name w h1]
      set_handler_own [of "commandHandlers s0" name _ w h1]
    by auto
  then have one: "onCommand w name h1 s0 =
      (Normal,
       s0\<lparr>commandHandlers := (commandHandlers s0)\<lparr>own := (own (commandHandlers s0))(name \<mapsto> h1)\<rparr>\<rparr>,
       [])"
    by (simp add: onCommand_def)
  then have own1: "own (commandHandlers ?s1) name = Some h1"
    by (simp add: state_of_triple)
  have "own (commandHandlers (state_of (onCommand w name h2 ?s1))) name = Some h2"
    using set_handler_own [OF own1, of w h2] by (simp add: onCommand_def state_of_triple)
  then show ?thesis by (simp add: state_after_Cons state_after_Nil)
qed

subsection \<open>Message events\<close>

lemma page_after_Nil: "page_after w [] p = p"
  by (simp add: page_after_def)

lemma page_after_Cons: "page_after w (st # sts) p = page_after w sts (fst (run_step w st p))"
  by (simp add: page_after_def split: prod.splits)

lemma kit_Method: "kit (fst (run_step w (Method c) p)) = state_of (run_call w c (kit p))"
  by (simp add: state_of_def split: prod.splits)

lemma listeners_Method:
  "listeners (fst (run_step w (Method c) p)) =
     listeners p + added_listeners (effects_of (run_call w c (kit p)))"
  by (simp add: effects_of_def split: prod.splits)

lemma kit_Message:
  "kit (fst (run_step w (Message ev) p)) =
     state_after w (replicate (listeners p) (Dispatch ev)) (kit p)"
  by (simp add: state_after_def split: prod.splits)

lemma listeners_Message: "listeners (fst (run_step w (Message ev) p)) = listeners p"
  by (simp split: prod.splits)

lemma run_step_invariant:
  "queue_invariant (kit p) \<Longrightarrow> queue_invariant (kit (fst (run_step w st p)))"
  by (cases st) (simp_all only: kit_Method kit_Message run_call_invariant state_after_invariant)

lemma page_after_invariant:
  "queue_invariant (kit p) \<Longrightarrow> queue_invariant (kit (page_after w sts p))"
  by (induction sts arbitrary: p)
     (simp_all only: page_after_Nil page_after_Cons run_step_invariant)

lemma initial_page_invariant: "queue_invariant (kit initial_page)"
  by (simp add: initial_page_def initial_invariant)

lemma run_calls_unchanged:
  "handleMessage w ev s = (Normal, s, es) \<Longrightarrow>
   run_calls w (replicate n (Dispatch ev)) s = (s, concat (replicate n es))"
  by (induction n) simp_all

lemma message_unchanged:
  "handleMessage w ev (kit p) = (Normal, kit p, es) \<Longrightarrow>
   run_step w (Message ev) p = (p, concat (replicate (listeners p) es))"
  by (simp add: run_calls_unchanged)

lemma parent_ready_sets_flag:
  assumes "is_parent_ready ev"
  shows "isReady (state_of (handleMessage w ev s))"
proof -
  obtain q where q: "state_of (flushQueue w (s\<lparr>isReady := True\<rparr>)) =
      s\<lparr>isReady := True, messageQueue := q\<rparr>"
    using flushQueue_frame [of w "s\<lparr>isReady := True\<rparr>"] by auto
  have "state_of (handleReady w (data ev) s) = s\<lparr>isReady := True, messageQueue := q\<rparr>"
    using assms q
    by (simp add: handleReady_def is_parent_ready_def state_of_and_then state_of_triple
        split: completion.splits option.splits)
  moreover have "state_of (handleMessage w ev s) = state_of (handleReady w (data ev) s)"
    using assms
    by (simp add: handleMessage_well_formed is_parent_ready_def state_of_and_then
        handleCommand_state split: completion.splits)
  ultimately show ?thesis by simp
qed

lemma ready_event_well_formed: "is_parent_ready ready_event"
  by (simp add: is_parent_ready_def ready_event_def)

lemma handleMessage_config: "config (state_of (handleMessage w ev s)) = config s"
  using handleMessage_frame [of w ev s] by auto

lemma init_config:
  "config (state_of (init w now ts cfg s)) = Some (resolve_config now cfg)"
  using init_frame [of w now ts cfg s] by auto

lemma resolve_example_config: "resolve_config now (Some example_config) = example_config"
  by (simp add: resolve_config_def example_config_def js_or_def)

lemma command_event_well_formed: "is_command_for w name (command_event name sender)"
  by (simp add: is_command_for_def command_event_def)

text \<open>
  What holds of the ready flag and of a handler registered twice. The ready flag is
  false in the object as created, and once it is true it is true after every further
  sequence of calls (initialisation, sends, registrations, inbound dispatches, in any
  order and number). On a handler table that still has the prototype it was created
  with, two registrations under one command name other than \<^verbatim>\<open>__proto__\<close> (or,
  whatever its prototype, on a table that holds the name already), followed by any calls
  that do not register that name again, make a command message for the name call the
  second handler with the message's \<^verbatim>\<open>params\<close> and nothing else: each listener call
  does so, and so a message event calls the second handler once for each registered
  listener.
\<close>

theorem ready_never_reverts_and_last_handler_wins:
  "isReady initial = False
   \<and> (isReady (state_after w cs s) \<longrightarrow> isReady (state_after w (cs @ cs') s))
   \<and> ((own (commandHandlers s0) name \<noteq> None
         \<or> proto (commandHandlers s0) = None \<and> name \<noteq> ''__proto__'')
       \<and> is_command_for w name ev \<and> list_all (\<lambda>c. \<not> registers name c) later \<longrightarrow>
        handleMessage w ev
          (state_after w ([OnCommand name h1, OnCommand name h2] @ later) s0) =
        (Normal, state_after w ([OnCommand name h1, OnCommand name h2] @ later) s0,
         [CallHandler h2 (get_prop (data ev) ''params'')])
      \<and> run_step w (Message ev)
          \<lparr>kit = state_after w ([OnCommand name h1, OnCommand name h2] @ later) s0,
           listeners = n\<rparr> =
        (\<lparr>kit = state_after w ([OnCommand name h1, OnCommand name h2] @ later) s0,
          listeners = n\<rparr>,
         replicate n (CallHandler h2 (get_prop (data ev) ''params''))))"
proof (intro conjI impI)
  show "isReady initial = False" by (simp add: initial_def)
next
  assume "isReady (state_after w cs s)"
  then show "isReady (state_after w (cs @ cs') s)"
    by (simp add: state_after_append state_after_ready)
next
  let ?s = "state_after w ([OnCommand name h1, OnCommand name h2] @ later) s0"
  assume a: "(own (commandHandlers s0) name \<noteq> None
         \<or> proto (commandHandlers s0) = None \<and> name \<noteq> ''__proto__'')
       \<and> is_command_for w name ev \<and> list_all (\<lambda>c. \<not> registers name c) later"
  then have plain: "own (commandHandlers s0) name \<noteq> None
         \<or> proto (commandHandlers s0) = None \<and> name \<noteq> ''__proto__''"
    and ev: "is_command_for w name ev"
    and later: "list_all (\<lambda>c. \<not> registers name c) later"
    by blast+
  have "own (commandHandlers ?s) name =
      own (commandHandlers (state_after w [OnCommand name h1, OnCommand name h2] s0)) name"
    by (simp only: state_after_append state_after_own [OF later])
  then have reg: "own (commandHandlers ?s) name = Some h2"
    by (simp only: twice_registered [OF plain])
  show one: "handleMessage w ev ?s =
      (Normal, ?s, [CallHandler h2 (get_prop (data ev) ''params'')])"
    by (rule registered_command_result [OF ev reg])
  have "kit \<lparr>kit = ?s, listeners = n\<rparr> = ?s" by simp
  with one have "handleMessage w ev (kit \<lparr>kit = ?s, listeners = n\<rparr>) =
      (Normal, kit \<lparr>kit = ?s, listeners = n\<rparr>,
       [CallHandler h2 (get_prop (data ev) ''params'')])"
    by simp
  from message_unchanged [OF this]
  show "run_step w (Message ev) \<lparr>kit = ?s, listeners = n\<rparr> =
      (\<lparr>kit = ?s, listeners = n\<rparr>,
       replicate n (CallHandler h2 (get_prop (data ev) ''params'')))"
    by (simp add: concat_replicate_single)
qed

theorem ready_never_reverts_and_last_handler_wins_witness:
  "isReady initial = False
   \<and> isReady (state_after example_world
        [Init 1700000000000 ''2023-11-14T22:13:20.000Z'' (Some example_config),
         Dispatch ready_event] initial)
   \<and> isReady (state_after example_world
        ([Init 1700000000000 ''2023-11-14T22:13:20.000Z'' (Some example_config),
          Dispatch ready_event] @
         [Init 1700000000500 ''2023-11-14T22:13:20.500Z'' None, Close,
          Dispatch (command_event ''reset'' ''https://host.example'')]) initial)
   \<and> proto (commandHandlers example_session) = None
   \<and> is_command_for example_world ''reset'' (command_event ''reset'' ''https://host.example'')
   \<and> list_all (\<lambda>c. \<not> registers ''reset'' c)
        [OnCommand ''submit'' (JsFun ''submit''), Resize (JNum 480)]
   \<and> effects_of (handleMessage example_world
        (command_event ''reset'' ''https://host.example'')
        (state_after example_world
           ([OnCommand ''reset'' (JsFun ''first''), OnCommand ''reset'' (JsFun ''second'')] @
            [OnCommand ''submit'' (JsFun ''submit''), Resize (JNum 480)])
           example_session)) =
       [CallHandler (JsFun ''second'') (JObj [])]
   \<and> snd (run_step example_world
        (Message (command_event ''reset'' ''https://host.example''))
        \<lparr>kit = state_after example_world
           ([OnCommand ''reset'' (JsFun ''first''), OnCommand ''reset'' (JsFun ''second'')] @
            [OnCommand ''submit'' (JsFun ''submit''), Resize (JNum 480)])
           example_session,
         listeners = 2\<rparr>) =
       [CallHandler (JsFun ''second'') (JObj []), CallHandler (JsFun ''second'') (JObj [])]"
proof -
  let ?cs = "[Init 1700000000000 ''2023-11-14T22:13:20.000Z'' (Some example_config),
              Dispatch ready_event]"
  let ?cs' = "[Init 1700000000500 ''2023-11-14T22:13:20.500Z'' None, Close,
               Dispatch (command_event ''reset'' ''https://host.example'')]"
  let ?later = "[OnCommand ''submit'' (JsFun ''submit''), Resize (JNum 480)]"
  let ?ev = "command_event ''reset'' ''https://host.example''"
  let ?s = "state_after example_world
      ([OnCommand ''reset'' (JsFun ''first''), OnCommand ''reset'' (JsFun ''second'')] @ ?later)
      example_session"
  note t = ready_never_reverts_and_last_handler_wins
    [where w = example_world and cs = ?cs and s = initial and cs' = ?cs'
       and name = "''reset''" and ev = ?ev and later = ?later
       and ?h1.0 = "JsFun ''first''" and ?h2.0 = "JsFun ''second''"
       and ?s0.0 = example_session and n = 2]
  have h1: "isReady (state_after example_world ?cs initial)"
    by (simp add: state_after_Cons state_after_Nil parent_ready_sets_flag
        ready_event_well_formed)
  have h0: "proto (commandHandlers example_session) = None"
    by (simp add: example_session_def)
  have h2: "is_command_for example_world ''reset'' ?ev" by (rule command_event_well_formed)
  have h3: "list_all (\<lambda>c. \<not> registers ''reset'' c) ?later" by simp
  have h4: "''reset'' \<noteq> ''__proto__''" by simp
  have p: "get_prop (data ?ev) ''params'' = JObj []" by (simp add: command_event_def)
  from t have w1: "isReady initial = False" by blast
  from t h1 have w2: "isReady (state_after example_world (?cs @ ?cs') initial)" by blast
  from t h0 h2 h3 h4 have both:
    "handleMessage example_world ?ev ?s =
       (Normal, ?s, [CallHandler (JsFun ''second'') (get_prop (data ?ev) ''params'')])
     \<and> run_step example_world (Message ?ev) \<lparr>kit = ?s, listeners = 2\<rparr> =
       (\<lparr>kit = ?s, listeners = 2\<rparr>,
        replicate 2 (CallHandler (JsFun ''second'') (get_prop (data ?ev) ''params'')))"
    by blast
  from both have w3: "effects_of (handleMessage example_world ?ev ?s) =
       [CallHandler (JsFun ''second'') (JObj [])]"
    by (simp only: effects_of_triple p)
  have two: "replicate 2 (CallHandler (JsFun ''second'') (JObj [])) =
      [CallHandler (JsFun ''second'') (JObj []), CallHandler (JsFun ''second'') (JObj [])]"
    by (simp add: numeral_2_eq_2)
  from both have w4: "snd (run_step example_world (Message ?ev) \<lparr>kit = ?s, listeners = 2\<rparr>) =
       [CallHandler (JsFun ''second'') (JObj []), CallHandler (JsFun ''second'') (JObj [])]"
    by (simp only: snd_conv p two)
  from w1 h1 w2 h0 h2 h3 w3 w4 show ?thesis by blast
qed

text \<open>
  C9 fails on the code, in its second half. The handler table is a plain object, so a
  registration under \<^verbatim>\<open>__proto__\<close> makes the registered function the table's
  prototype. After it, \<^verbatim>\<open>name\<close> is an inherited read-only property (every function
  has one): in the strict-mode source the assignment of line 97 throws a TypeError, for
  the first registration under \<^verbatim>\<open>name\<close> and for the second, and nothing is
  registered. A command message for \<^verbatim>\<open>name\<close> then finds the function's name, a
  string, and the call of line 184 throws a TypeError: the second handler is not
  invoked.
\<close>

theorem registration_after_proto_swap_throws:
  "completion_of (run_call example_world (OnCommand ''name'' (JsFun ''second''))
      (state_after example_world
         [OnCommand ''__proto__'' (JsFun ''table''), OnCommand ''name'' (JsFun ''first'')]
         example_session)) = Throw TypeError
   \<and> completion_of (handleMessage example_world
        (command_event ''name'' ''https://host.example'')
        (state_after example_world
           [OnCommand ''__proto__'' (JsFun ''table''), OnCommand ''name'' (JsFun ''first''),
            OnCommand ''name'' (JsFun ''second'')]
           example_session)) = Throw TypeError
   \<and> effects_of (handleMessage example_world
        (command_event ''name'' ''https://host.example'')
        (state_after example_world
           [OnCommand ''__proto__'' (JsFun ''table''), OnCommand ''name'' (JsFun ''first''),
            OnCommand ''name'' (JsFun ''second'')]
           example_session)) = []"
  by (simp add: state_after_def onCommand_def set_handler_def get_handler_def
      example_session_def example_world_def strict_function_assign_def
      strict_function_property_def handleMessage_def handleReady_def handleCommand_def
      and_then_def Let_def js_not_def command_event_def completion_of_def effects_of_def)

subsection \<open>A second handshake message\<close>

lemma init_embedded:
  assumes "embedded w" and "referrer w = [] \<or> url_origin w (referrer w) = Inr org"
  shows "init w now ts cfg s =
    (Normal,
     s\<lparr>config := Some (resolve_config now cfg),
       parentOrigin := Some (if referrer w = [] then ''*'' else org)\<rparr>,
     AddEventListener #
     effects_of (sendToParent w (readyMessage (resolve_config now cfg) ts)
       (s\<lparr>config := Some (resolve_config now cfg),
          parentOrigin := Some (if referrer w = [] then ''*'' else org)\<rparr>)))"
proof -
  define o' where "o' = (if referrer w = [] then ''*'' else org)"
  define c where "c = resolve_config now cfg"
  define s1 where "s1 = s\<lparr>config := Some c, parentOrigin := Some o'\<rparr>"
  have d: "detectParentOrigin w (s\<lparr>config := Some c\<rparr>) = (Normal, s1, [])"
    using assms by (auto simp: detectParentOrigin_def o'_def s1_def)
  have "config s1 = Some c" by (simp add: s1_def)
  from sendToParent_result [OF this, of w "readyMessage c ts"]
  have send: "sendToParent w (readyMessage c ts) s1 =
      (Normal, s1, effects_of (sendToParent w (readyMessage c ts) s1))" .
  have "init w now ts cfg s =
      and_then (Normal, s1, [])
        (\<lambda>s1. and_then (Normal, s1, [AddEventListener]) (sendToParent w (readyMessage c ts)))"
    by (simp add: init_def Let_def d c_def [symmetric])
  also have "\<dots> = (case sendToParent w (readyMessage c ts) s1 of
      (r, s', es') \<Rightarrow> (r, s', AddEventListener # es'))"
    by (simp add: and_then_def split: prod.splits)
  also have "\<dots> = (Normal, s1, AddEventListener #
      effects_of (sendToParent w (readyMessage c ts) s1))"
    by (subst send) simp
  finally show ?thesis by (simp only: s1_def c_def o'_def)
qed

lemma added_listeners_sendToParent: "added_listeners (effects_of (sendToParent w m s)) = 0"
  by (simp add: sendToParent_def effects_of_def Let_def split: option.splits)

lemma state_after_dispatch_config:
  "config (state_after w (replicate n (Dispatch ev)) s) = config s"
  by (induction n arbitrary: s) (simp_all add: state_after_Nil state_after_Cons handleMessage_config)

lemma state_after_dispatch_ready:
  "is_parent_ready ev \<Longrightarrow> isReady (state_after w (replicate (Suc n) (Dispatch ev)) s)"
  by (simp add: state_after_Cons state_after_ready parent_ready_sets_flag)

text \<open>
  C2, as the code has it. In a session that is ready after any sequence of method calls
  and message events on the page as loaded, and that has been initialised, a listener
  called with a further well-formed \<^verbatim>\<open>parent_ready\<close> leaves the object unchanged and
  sends nothing, the queue being empty already; but it calls \<^verbatim>\<open>onReady\<close> again when
  the configuration has one. A further \<^verbatim>\<open>parent_ready\<close> message event therefore leaves
  the page unchanged and calls \<^verbatim>\<open>onReady\<close> once for each listener registered, one
  listener for each \<^verbatim>\<open>init\<close> that reached the registration: once when \<^verbatim>\<open>init\<close>
  was called once.
\<close>

theorem repeated_parent_ready:
  assumes "isReady (kit (page_after w sts initial_page))"
    and "config (kit (page_after w sts initial_page)) = Some c"
    and "is_parent_ready ev"
  shows "handleMessage w ev (kit (page_after w sts initial_page)) =
           (Normal, kit (page_after w sts initial_page),
            (case onReady c of None \<Rightarrow> [] | Some f \<Rightarrow> [CallOnReady f]))
       \<and> run_step w (Message ev) (page_after w sts initial_page) =
           (page_after w sts initial_page,
            concat (replicate (listeners (page_after w sts initial_page))
              (case onReady c of None \<Rightarrow> [] | Some f \<Rightarrow> [CallOnReady f])))"
proof -
  let ?p = "page_after w sts initial_page"
  have "queue_invariant (kit ?p)"
    by (rule page_after_invariant [OF initial_page_invariant])
  with assms(1) have empty: "messageQueue (kit ?p) = []"
    by (simp add: queue_invariant_def)
  have same: "(kit ?p)\<lparr>isReady := True, messageQueue := []\<rparr> = kit ?p"
    using assms(1) empty by simp
  have one: "handleMessage w ev (kit ?p) =
      (Normal, kit ?p, (case onReady c of None \<Rightarrow> [] | Some f \<Rightarrow> [CallOnReady f]))"
    using parent_ready_result [OF assms(3) assms(2), of w] by (simp add: empty same)
  from one message_unchanged [OF one] show ?thesis by blast
qed

theorem repeated_parent_ready_witness:
  "isReady (kit (page_after example_world
      [Method (Init 1700000000000 ''2023-11-14T22:13:20.000Z'' (Some example_config)),
       Method (Init 1700000000500 ''2023-11-14T22:13:20.500Z'' (Some example_config)),
       Message ready_event] initial_page))
   \<and> config (kit (page_after example_world
      [Method (Init 1700000000000 ''2023-11-14T22:13:20.000Z'' (Some example_config)),
       Method (Init 1700000000500 ''2023-11-14T22:13:20.500Z'' (Some example_config)),
       Message ready_event] initial_page)) = Some example_config
   \<and> is_parent_ready ready_event
   \<and> listeners (page_after example_world
      [Method (Init 1700000000000 ''2023-11-14T22:13:20.000Z'' (Some example_config)),
       Method (Init 1700000000500 ''2023-11-14T22:13:20.500Z'' (Some example_config)),
       Message ready_event] initial_page) = 2
   \<and> effects_of (handleMessage example_world ready_event
       (kit (page_after example_world
          [Method (Init 1700000000000 ''2023-11-14T22:13:20.000Z'' (Some example_config)),
           Method (Init 1700000000500 ''2023-11-14T22:13:20.500Z'' (Some example_config)),
           Message ready_event] initial_page))) =
      [CallOnReady (JsFun ''onReady'')]
   \<and> snd (run_step example_world (Message ready_event)
       (page_after example_world
          [Method (Init 1700000000000 ''2023-11-14T22:13:20.000Z'' (Some example_config)),
           Method (Init 1700000000500 ''2023-11-14T22:13:20.500Z'' (Some example_config)),
           Message ready_event] initial_page)) =
      [CallOnReady (JsFun ''onReady''), CallOnReady (JsFun ''onReady'')]"
proof -
  let ?p = "page_after example_world
      [Method (Init 1700000000000 ''2023-11-14T22:13:20.000Z'' (Some example_config)),
       Method (Init 1700000000500 ''2023-11-14T22:13:20.500Z'' (Some example_config)),
       Message ready_event] initial_page"
  have emb: "embedded example_world"
    and org: "referrer example_world = [] \<or>
      url_origin example_world (referrer example_world) = Inr ''https://host.example''"
    by (simp_all add: example_world_def)
  have one: "\<And>now ts cfg s.
      added_listeners (effects_of (init example_world now ts cfg s)) = 1"
    by (simp add: init_embedded [OF emb org] effects_of_triple added_listeners_sendToParent)
  have n: "listeners ?p = 2"
    by (simp add: page_after_Cons page_after_Nil listeners_Message listeners_Method one
        initial_page_def del: run_step.simps)
  have k: "kit ?p =
      state_after example_world (replicate (Suc (Suc 0)) (Dispatch ready_event))
        (state_of (init example_world 1700000000500 ''2023-11-14T22:13:20.500Z''
           (Some example_config)
           (state_of (init example_world 1700000000000 ''2023-11-14T22:13:20.000Z''
              (Some example_config) initial))))"
    by (simp add: page_after_Cons page_after_Nil kit_Message kit_Method listeners_Method one
        initial_page_def del: run_step.simps)
  have h1: "isReady (kit ?p)"
    unfolding k by (rule state_after_dispatch_ready [OF ready_event_well_formed])
  have h2: "config (kit ?p) = Some example_config"
    unfolding k state_after_dispatch_config by (simp add: init_config resolve_example_config)
  have h3: "is_parent_ready ready_event" by (rule ready_event_well_formed)
  note t = repeated_parent_ready [OF h1 h2 h3]
  have again: "onReady example_config = Some (JsFun ''onReady'')"
    by (simp add: example_config_def)
  from t [THEN conjunct1] have w1: "effects_of (handleMessage example_world ready_event (kit ?p)) =
      [CallOnReady (JsFun ''onReady'')]"
    by (simp only: effects_of_triple again option.case)
  have two: "concat (replicate 2 [CallOnReady (JsFun ''onReady'')]) =
      [CallOnReady (JsFun ''onReady''), CallOnReady (JsFun ''onReady'')]"
    by (simp add: numeral_2_eq_2)
  from t [THEN conjunct2] have w2: "snd (run_step example_world (Message ready_event) ?p) =
      [CallOnReady (JsFun ''onReady''), CallOnReady (JsFun ''onReady'')]"
    by (simp only: snd_conv again option.case n two)
  from h1 h2 h3 n w1 w2 show ?thesis by blast
qed

theorem repeated_parent_ready_counterexample:
  "isReady (state_after example_world
      [Init 1700000000000 ''2023-11-14T22:13:20.000Z'' (Some example_config),
       Dispatch ready_event] initial)
   \<and> effects_of (handleMessage example_world ready_event
       (state_after example_world
          [Init 1700000000000 ''2023-11-14T22:13:20.000Z'' (Some example_config),
           Dispatch ready_event] initial)) =
      [CallOnReady (JsFun ''onReady'')]"
proof -
  let ?s = "state_after example_world
      [Init 1700000000000 ''2023-11-14T22:13:20.000Z'' (Some example_config),
       Dispatch ready_event] initial"
  have ready: "isReady ?s"
    by (simp add: state_after_Cons state_after_Nil parent_ready_sets_flag
        ready_event_well_formed)
  have cfg: "config ?s = Some example_config"
    by (simp add: state_after_Cons state_after_Nil handleMessage_config init_config
        resolve_example_config)
  have "queue_invariant ?s"
    by (simp add: state_after_invariant initial_invariant)
  with ready have empty: "messageQueue ?s = []"
    by (simp add: queue_invariant_def)
  have again: "onReady example_config = Some (JsFun ''onReady'')"
    by (simp add: example_config_def)
  have "effects_of (handleMessage example_world ready_event ?s) =
      [CallOnReady (JsFun ''onReady'')]"
    unfolding parent_ready_result [OF ready_event_well_formed cfg, of example_world]
      effects_of_triple empty again
    by simp
  with ready show ?thesis by blast
qed

subsection \<open>The pending queue\<close>

lemma delivered_append: "delivered (xs @ ys) = delivered xs @ delivered ys"
  by (induction xs rule: delivered.induct) simp_all

lemma attempted_flush:
  "attempted (concat (map (\<lambda>m. effects_of (sendToParent w m s)) q)) =
     (if embedded w then q else [])"
  by (induction q) (simp_all add: attempted_append attempted_sendToParent)

lemma delivered_flush:
  "delivered (concat (map (\<lambda>m. effects_of (sendToParent w m s)) q)) =
     filter (\<lambda>m. embedded w \<and> post_throws w m (parentOrigin s) = None) q"
  by (induction q) (simp_all add: delivered_append delivered_sendToParent)

lemma sendData_before_ready:
  "config s = Some c \<Longrightarrow> \<not> isReady s \<Longrightarrow>
   sendData w ts dat options s =
     (Normal, s\<lparr>messageQueue := messageQueue s @ [dataMessage c ts dat options]\<rparr>, [])"
  by (simp add: sendData_def)

lemma sendData_after_ready:
  "config s = Some c \<Longrightarrow> isReady s \<Longrightarrow>
   sendData w ts dat options s =
     (Normal, s, effects_of (sendToParent w (dataMessage c ts dat options) s))"
  using sendToParent_result [of s c w] by (simp add: sendData_def)

lemma run_calls_sendData:
  "config s = Some c \<Longrightarrow> \<not> isReady s \<Longrightarrow>
   run_calls w (map (\<lambda>(ts, dat, options). SendData ts dat options) xs) s =
     (s\<lparr>messageQueue :=
          messageQueue s @ map (\<lambda>(ts, dat, options). dataMessage c ts dat options) xs\<rparr>,
      [])"
proof (induction xs arbitrary: s)
  case Nil
  then show ?case by simp
next
  case (Cons x xs)
  obtain ts dat options where x: "x = (ts, dat, options)" by (cases x) auto
  let ?s1 = "s\<lparr>messageQueue := messageQueue s @ [dataMessage c ts dat options]\<rparr>"
  have "config ?s1 = Some c" and "\<not> isReady ?s1" using Cons.prems by simp_all
  from Cons.IH [OF this]
  show ?case using Cons.prems x by (simp add: sendData_before_ready)
qed

text \<open>
  C3. On an initialised session that is not yet ready, a sequence of \<^verbatim>\<open>sendData\<close>
  calls sends nothing and appends one \<^verbatim>\<open>embed_data\<close> message per call to the pending
  queue, in call order. The first well-formed \<^verbatim>\<open>parent_ready\<close> then hands the whole
  queue to \<^verbatim>\<open>postMessage\<close> in that order (in a page with a host; the host receives,
  in the same order, those the channel accepts), sets the ready flag and leaves the
  queue empty; a second \<^verbatim>\<open>parent_ready\<close> sends nothing more. A \<^verbatim>\<open>sendData\<close> call
  after the transition hands its message to \<^verbatim>\<open>postMessage\<close> during the call and
  leaves the queue empty.
\<close>

theorem sendData_queue_is_fifo:
  assumes "config s = Some c" and "\<not> isReady s" and "is_parent_ready ev"
  shows
    "(let calls = map (\<lambda>(ts, dat, options). SendData ts dat options) xs;
          queued = messageQueue s @
                   map (\<lambda>(ts, dat, options). dataMessage c ts dat options) xs;
          s1 = state_after w calls s;
          s2 = state_of (handleMessage w ev s1)
      in s1 = s\<lparr>messageQueue := queued\<rparr>
       \<and> trace_of w calls s = []
       \<and> list_all (\<lambda>m. get_prop m ''type'' = JStr ''embed_data'')
            (drop (length (messageQueue s)) (messageQueue s1))
       \<and> attempted (effects_of (handleMessage w ev s1)) = (if embedded w then queued else [])
       \<and> delivered (effects_of (handleMessage w ev s1)) =
           filter (\<lambda>m. embedded w \<and> post_throws w m (parentOrigin s) = None) queued
       \<and> s2 = s\<lparr>isReady := True, messageQueue := []\<rparr>
       \<and> attempted (effects_of (handleMessage w ev s2)) = []
       \<and> sendData w ts' dat' options' s2 =
           (Normal, s2, effects_of (sendToParent w (dataMessage c ts' dat' options') s2))
       \<and> attempted (effects_of (sendData w ts' dat' options' s2)) =
           (if embedded w then [dataMessage c ts' dat' options'] else []))"
proof -
  let ?calls = "map (\<lambda>(ts, dat, options). SendData ts dat options) xs"
  let ?queued = "messageQueue s @ map (\<lambda>(ts, dat, options). dataMessage c ts dat options) xs"
  let ?s1 = "s\<lparr>messageQueue := ?queued\<rparr>"
  let ?s2 = "s\<lparr>isReady := True, messageQueue := []\<rparr>"
  have run: "run_calls w ?calls s = (?s1, [])"
    by (rule run_calls_sendData [OF assms(1) assms(2)])
  have s1: "state_after w ?calls s = ?s1" by (simp add: state_after_def run)
  have tr: "trace_of w ?calls s = []" by (simp add: trace_of_def run)
  have typed: "list_all (\<lambda>m. get_prop m ''type'' = JStr ''embed_data'')
      (drop (length (messageQueue s)) (messageQueue ?s1))"
    by (simp add: list_all_iff dataMessage_def split: prod.splits)
  have c1: "config ?s1 = Some c" using assms(1) by simp
  have first: "handleMessage w ev ?s1 =
      (Normal, ?s2,
       concat (map (\<lambda>m. effects_of (sendToParent w m ?s1)) ?queued) @
       (case onReady c of None \<Rightarrow> [] | Some f \<Rightarrow> [CallOnReady f]))"
    using parent_ready_result [OF assms(3) c1, of w] by simp
  have tail: "attempted (case onReady c of None \<Rightarrow> [] | Some f \<Rightarrow> [CallOnReady f]) = []"
      "delivered (case onReady c of None \<Rightarrow> [] | Some f \<Rightarrow> [CallOnReady f]) = []"
    by (simp_all split: option.splits)
  have att: "attempted (effects_of (handleMessage w ev ?s1)) =
      (if embedded w then ?queued else [])"
    unfolding first effects_of_triple attempted_append attempted_flush tail by simp
  have del: "delivered (effects_of (handleMessage w ev ?s1)) =
      filter (\<lambda>m. embedded w \<and> post_throws w m (parentOrigin s) = None) ?queued"
    unfolding first effects_of_triple delivered_append delivered_flush tail by simp
  have s2: "state_of (handleMessage w ev ?s1) = ?s2"
    by (simp add: first state_of_triple)
  have c2: "config ?s2 = Some c" using assms(1) by simp
  have second: "attempted (effects_of (handleMessage w ev ?s2)) = []"
    using parent_ready_result [OF assms(3) c2, of w]
    by (simp add: effects_of_triple attempted_append tail)
  have r2: "isReady ?s2" by simp
  have after: "sendData w ts' dat' options' ?s2 =
      (Normal, ?s2, effects_of (sendToParent w (dataMessage c ts' dat' options') ?s2))"
    by (rule sendData_after_ready [OF c2 r2])
  have after_att: "attempted (effects_of (sendData w ts' dat' options' ?s2)) =
      (if embedded w then [dataMessage c ts' dat' options'] else [])"
    unfolding after effects_of_triple attempted_sendToParent by simp
  show ?thesis
    unfolding Let_def s1 s2
    using tr typed att del second after after_att by simp
qed

theorem sendData_queue_is_fifo_witness:
  "config example_session = Some example_config
   \<and> \<not> isReady example_session
   \<and> is_parent_ready ready_event
   \<and> messageQueue (state_after example_world
        [SendData ''2023-11-14T22:13:21.000Z'' (JNum 1) JUndefined,
         SendData ''2023-11-14T22:13:22.000Z'' (JNum 2) JUndefined] example_session) =
       [JObj [(''type'', JStr ''embed_data''), (''pageId'', JStr ''loan-form-v1''),
              (''data'', JNum 1), (''options'', JObj []),
              (''timestamp'', JStr ''2023-11-14T22:13:21.000Z'')],
        JObj [(''type'', JStr ''embed_data''), (''pageId'', JStr ''loan-form-v1''),
              (''data'', JNum 2), (''options'', JObj []),
              (''timestamp'', JStr ''2023-11-14T22:13:22.000Z'')]]
   \<and> delivered (effects_of (handleMessage example_world ready_event
        (state_after example_world
          [SendData ''2023-11-14T22:13:21.000Z'' (JNum 1) JUndefined,
           SendData ''2023-11-14T22:13:22.000Z'' (JNum 2) JUndefined] example_session))) =
       [JObj [(''type'', JStr ''embed_data''), (''pageId'', JStr ''loan-form-v1''),
              (''data'', JNum 1), (''options'', JObj []),
              (''timestamp'', JStr ''2023-11-14T22:13:21.000Z'')],
        JObj [(''type'', JStr ''embed_data''), (''pageId'', JStr ''loan-form-v1''),
              (''data'', JNum 2), (''options'', JObj []),
              (''timestamp'', JStr ''2023-11-14T22:13:22.000Z'')]]
   \<and> messageQueue (state_of (handleMessage example_world ready_event
        (state_after example_world
          [SendData ''2023-11-14T22:13:21.000Z'' (JNum 1) JUndefined,
           SendData ''2023-11-14T22:13:22.000Z'' (JNum 2) JUndefined] example_session))) = []"
proof -
  have h1: "config example_session = Some example_config"
    by (simp add: example_session_def)
  have h2: "\<not> isReady example_session" by (simp add: example_session_def)
  have h3: "is_parent_ready ready_event" by (rule ready_event_well_formed)
  note t = sendData_queue_is_fifo [OF h1 h2 h3,
      where xs = "[(''2023-11-14T22:13:21.000Z'', JNum 1, JUndefined),
                   (''2023-11-14T22:13:22.000Z'', JNum 2, JUndefined)]"
        and w = example_world, unfolded Let_def]
  have q0: "messageQueue example_session = []" by (simp add: example_session_def)
  have ok: "embedded example_world" "\<And>m org. post_throws example_world m org = None"
    by (simp_all add: example_world_def)
  have ms: "dataMessage example_config ''2023-11-14T22:13:21.000Z'' (JNum 1) JUndefined =
        JObj [(''type'', JStr ''embed_data''), (''pageId'', JStr ''loan-form-v1''),
              (''data'', JNum 1), (''options'', JObj []),
              (''timestamp'', JStr ''2023-11-14T22:13:21.000Z'')]"
      "dataMessage example_config ''2023-11-14T22:13:22.000Z'' (JNum 2) JUndefined =
        JObj [(''type'', JStr ''embed_data''), (''pageId'', JStr ''loan-form-v1''),
              (''data'', JNum 2), (''options'', JObj []),
              (''timestamp'', JStr ''2023-11-14T22:13:22.000Z'')]"
    by (simp_all add: dataMessage_def example_config_def js_or_def)
  have w1: "messageQueue (state_after example_world
        [SendData ''2023-11-14T22:13:21.000Z'' (JNum 1) JUndefined,
         SendData ''2023-11-14T22:13:22.000Z'' (JNum 2) JUndefined] example_session) =
       [JObj [(''type'', JStr ''embed_data''), (''pageId'', JStr ''loan-form-v1''),
              (''data'', JNum 1), (''options'', JObj []),
              (''timestamp'', JStr ''2023-11-14T22:13:21.000Z'')],
        JObj [(''type'', JStr ''embed_data''), (''pageId'', JStr ''loan-form-v1''),
              (''data'', JNum 2), (''options'', JObj []),
              (''timestamp'', JStr ''2023-11-14T22:13:22.000Z'')]]"
    using t [THEN conjunct1] by (simp add: q0 ms)
  have w2: "delivered (effects_of (handleMessage example_world ready_event
        (state_after example_world
          [SendData ''2023-11-14T22:13:21.000Z'' (JNum 1) JUndefined,
           SendData ''2023-11-14T22:13:22.000Z'' (JNum 2) JUndefined] example_session))) =
       [JObj [(''type'', JStr ''embed_data''), (''pageId'', JStr ''loan-form-v1''),
              (''data'', JNum 1), (''options'', JObj []),
              (''timestamp'', JStr ''2023-11-14T22:13:21.000Z'')],
        JObj [(''type'', JStr ''embed_data''), (''pageId'', JStr ''loan-form-v1''),
              (''data'', JNum 2), (''options'', JObj []),
              (''timestamp'', JStr ''2023-11-14T22:13:22.000Z'')]]"
    using t [THEN conjunct2, THEN conjunct2, THEN conjunct2, THEN conjunct2, THEN conjunct1]
    by (simp add: q0 ms ok)
  have w3: "messageQueue (state_of (handleMessage example_world ready_event
        (state_after example_world
          [SendData ''2023-11-14T22:13:21.000Z'' (JNum 1) JUndefined,
           SendData ''2023-11-14T22:13:22.000Z'' (JNum 2) JUndefined] example_session))) = []"
    using t [THEN conjunct2, THEN conjunct2, THEN conjunct2, THEN conjunct2, THEN conjunct2,
             THEN conjunct1]
    by simp
  from h1 h2 h3 w1 w2 w3 show ?thesis by blast
qed

subsection \<open>Initialisation\<close>

text \<open>
  C1, as the code has it. \<^verbatim>\<open>init\<close> calls \<^verbatim>\<open>_sendToParent\<close> directly, and
  \<^verbatim>\<open>_sendToParent\<close> never consults the ready flag or the queue: in a page with a host
  whose origin resolves, the \<^verbatim>\<open>embed_ready\<close> message is handed to \<^verbatim>\<open>postMessage\<close>
  during \<^verbatim>\<open>init\<close> (and reaches the host unless that call throws), while the pending
  queue and the ready flag are left as they were. The message is never in the queue, so
  no later drain delivers it.
\<close>

theorem init_posts_embed_ready_at_once:
  assumes "embedded w" and "referrer w = [] \<or> url_origin w (referrer w) = Inr org"
  shows "attempted (effects_of (init w now ts cfg s)) =
           [readyMessage (resolve_config now cfg) ts]
       \<and> delivered (effects_of (init w now ts cfg s)) =
           (if post_throws w (readyMessage (resolve_config now cfg) ts)
                 (Some (if referrer w = [] then ''*'' else org)) = None
            then [readyMessage (resolve_config now cfg) ts] else [])
       \<and> get_prop (readyMessage (resolve_config now cfg) ts) ''type'' = JStr ''embed_ready''
       \<and> completion_of (init w now ts cfg s) = Normal
       \<and> messageQueue (state_of (init w now ts cfg s)) = messageQueue s
       \<and> isReady (state_of (init w now ts cfg s)) = isReady s"
proof -
  note r = init_embedded [OF assms, of now ts cfg s]
  have a: "attempted (effects_of (init w now ts cfg s)) =
           [readyMessage (resolve_config now cfg) ts]"
    unfolding r effects_of_triple using assms(1) by (simp add: attempted_sendToParent)
  have d: "delivered (effects_of (init w now ts cfg s)) =
           (if post_throws w (readyMessage (resolve_config now cfg) ts)
                 (Some (if referrer w = [] then ''*'' else org)) = None
            then [readyMessage (resolve_config now cfg) ts] else [])"
    unfolding r effects_of_triple using assms(1) by (simp add: delivered_sendToParent)
  have t: "get_prop (readyMessage (resolve_config now cfg) ts) ''type'' = JStr ''embed_ready''"
    by (simp add: readyMessage_def)
  have c: "completion_of (init w now ts cfg s) = Normal"
    unfolding r by (simp add: completion_of_triple)
  have q: "messageQueue (state_of (init w now ts cfg s)) = messageQueue s"
    unfolding r by (simp add: state_of_triple)
  have f: "isReady (state_of (init w now ts cfg s)) = isReady s"
    unfolding r by (simp add: state_of_triple)
  from a d t c q f show ?thesis by blast
qed

theorem init_posts_embed_ready_at_once_witness:
  "embedded example_world
   \<and> url_origin example_world (referrer example_world) = Inr ''https://host.example''
   \<and> delivered (effects_of (init example_world 1700000000000 ''2023-11-14T22:13:20.000Z''
        (Some example_config) initial)) =
       [JObj [(''type'', JStr ''embed_ready''), (''pageId'', JStr ''loan-form-v1''),
              (''timestamp'', JStr ''2023-11-14T22:13:20.000Z'')]]
   \<and> messageQueue (state_of (init example_world 1700000000000 ''2023-11-14T22:13:20.000Z''
        (Some example_config) initial)) = []
   \<and> isReady (state_of (init example_world 1700000000000 ''2023-11-14T22:13:20.000Z''
        (Some example_config) initial)) = False"
proof -
  have h1: "embedded example_world" by (simp add: example_world_def)
  have h2: "url_origin example_world (referrer example_world) = Inr ''https://host.example''"
    by (simp add: example_world_def)
  have h2': "referrer example_world = [] \<or>
      url_origin example_world (referrer example_world) = Inr ''https://host.example''"
    using h2 by simp
  note t = init_posts_embed_ready_at_once [OF h1 h2',
      of 1700000000000 "''2023-11-14T22:13:20.000Z''" "Some example_config" initial]
  have m: "readyMessage (resolve_config 1700000000000 (Some example_config))
        ''2023-11-14T22:13:20.000Z'' =
      JObj [(''type'', JStr ''embed_ready''), (''pageId'', JStr ''loan-form-v1''),
            (''timestamp'', JStr ''2023-11-14T22:13:20.000Z'')]"
    unfolding resolve_example_config by (simp add: readyMessage_def example_config_def)
  have ok: "\<And>x org. post_throws example_world x org = None"
    by (simp add: example_world_def)
  have w1: "delivered (effects_of (init example_world 1700000000000
        ''2023-11-14T22:13:20.000Z'' (Some example_config) initial)) =
       [JObj [(''type'', JStr ''embed_ready''), (''pageId'', JStr ''loan-form-v1''),
              (''timestamp'', JStr ''2023-11-14T22:13:20.000Z'')]]"
    using t [THEN conjunct2, THEN conjunct1] by (simp add: m ok)
  have w2: "messageQueue (state_of (init example_world 1700000000000
        ''2023-11-14T22:13:20.000Z'' (Some example_config) initial)) = []"
    using t [THEN conjunct2, THEN conjunct2, THEN conjunct2, THEN conjunct2, THEN conjunct1]
    by (simp add: initial_def)
  have w3: "isReady (state_of (init example_world 1700000000000
        ''2023-11-14T22:13:20.000Z'' (Some example_config) initial)) = False"
    using t [THEN conjunct2, THEN conjunct2, THEN conjunct2, THEN conjunct2, THEN conjunct2]
    by (simp add: initial_def)
  from h1 h2 w1 w2 w3 show ?thesis by blast
qed

theorem init_queues_embed_ready_counterexample:
  "isReady (state_of (init example_world 1700000000000 ''2023-11-14T22:13:20.000Z''
      None initial)) = False
   \<and> messageQueue (state_of (init example_world 1700000000000 ''2023-11-14T22:13:20.000Z''
      None initial)) = []
   \<and> effects_of (init example_world 1700000000000 ''2023-11-14T22:13:20.000Z'' None initial) =
      [AddEventListener,
       PostMessage
         (JObj [(''type'', JStr ''embed_ready''), (''pageId'', JStr ''embed-1700000000000''),
                (''timestamp'', JStr ''2023-11-14T22:13:20.000Z'')])
         (Some ''https://host.example'') None]"
  by (simp add: init_def Let_def resolve_config_def js_or_def dec_nat.simps digit_char_def
      detectParentOrigin_def example_world_def initial_def and_then_def sendToParent_def
      readyMessage_def state_of_def effects_of_def)

subsection \<open>The fields of outbound messages\<close>

lemma init_attempted:
  "set (attempted (effects_of (init w now ts cfg s))) \<subseteq>
     {readyMessage (resolve_config now cfg) ts}"
proof (cases "embedded w \<and> (referrer w = [] \<or> (\<exists>org. url_origin w (referrer w) = Inr org))")
  case True
  then obtain org where "embedded w" "referrer w = [] \<or> url_origin w (referrer w) = Inr org"
    by blast
  from init_embedded [OF this, of now ts cfg s] \<open>embedded w\<close>
  show ?thesis by (simp add: effects_of_triple attempted_sendToParent)
next
  case False
  show ?thesis
  proof (cases "embedded w")
    case True
    with False obtain e where "referrer w \<noteq> []" "url_origin w (referrer w) = Inl e"
      by (cases "url_origin w (referrer w)") auto
    then have "init w now ts cfg s = (Throw e, s\<lparr>config := Some (resolve_config now cfg)\<rparr>, [])"
      using True by (simp add: init_def Let_def detectParentOrigin_def and_then_def)
    then show ?thesis by (simp add: effects_of_triple)
  next
    case False
    then have "effects_of (init w now ts cfg s) =
        [ConsoleWarn ''[ChatKit] Not running in iframe'' [], AddEventListener]"
      by (simp add: init_def Let_def detectParentOrigin_def and_then_def sendToParent_def
          effects_of_def)
    then show ?thesis by simp
  qed
qed

lemma resolve_config_pageId: "truthy (pageId (resolve_config now cfg))"
  by (simp add: resolve_config_def js_or_def Let_def split: option.splits)

text \<open>
  C4, as the code has it. Every message a method builds has a \<^verbatim>\<open>pageId\<close> property,
  the configured one. The \<^verbatim>\<open>embed_ready\<close> and \<^verbatim>\<open>embed_data\<close> messages have a
  \<^verbatim>\<open>timestamp\<close>, the string the clock's \<^verbatim>\<open>toISOString\<close> gave in the call that built
  the message (for \<^verbatim>\<open>embed_data\<close> the \<^verbatim>\<open>sendData\<close> call, also when the message is
  queued and transmitted later); the \<^verbatim>\<open>embed_resize\<close> and \<^verbatim>\<open>embed_close\<close>
  messages have no \<^verbatim>\<open>timestamp\<close> property.
\<close>

theorem outbound_message_fields:
  assumes "embedded w" and "config s = Some c"
  shows "attempted (effects_of (resize w height s)) = [resizeMessage c height]
       \<and> get_prop (resizeMessage c height) ''type'' = JStr ''embed_resize''
       \<and> has_prop (resizeMessage c height) ''pageId''
       \<and> get_prop (resizeMessage c height) ''pageId'' = pageId c
       \<and> \<not> has_prop (resizeMessage c height) ''timestamp''
       \<and> attempted (effects_of (close w s)) = [closeMessage c]
       \<and> get_prop (closeMessage c) ''type'' = JStr ''embed_close''
       \<and> has_prop (closeMessage c) ''pageId''
       \<and> get_prop (closeMessage c) ''pageId'' = pageId c
       \<and> \<not> has_prop (closeMessage c) ''timestamp''
       \<and> (if isReady s then attempted (effects_of (sendData w ts dat options s))
          else drop (length (messageQueue s))
                 (messageQueue (state_of (sendData w ts dat options s)))) =
           [dataMessage c ts dat options]
       \<and> get_prop (dataMessage c ts dat options) ''type'' = JStr ''embed_data''
       \<and> has_prop (dataMessage c ts dat options) ''pageId''
       \<and> get_prop (dataMessage c ts dat options) ''pageId'' = pageId c
       \<and> get_prop (dataMessage c ts dat options) ''timestamp'' = JStr ts
       \<and> set (attempted (effects_of (init w now ts cfg s0))) \<subseteq>
           {readyMessage (resolve_config now cfg) ts}
       \<and> get_prop (readyMessage (resolve_config now cfg) ts) ''type'' = JStr ''embed_ready''
       \<and> has_prop (readyMessage (resolve_config now cfg) ts) ''pageId''
       \<and> truthy (get_prop (readyMessage (resolve_config now cfg) ts) ''pageId'')
       \<and> get_prop (readyMessage (resolve_config now cfg) ts) ''timestamp'' = JStr ts"
proof -
  have r: "attempted (effects_of (resize w height s)) = [resizeMessage c height]"
    using assms by (simp add: resize_def attempted_sendToParent)
  have rf: "get_prop (resizeMessage c height) ''type'' = JStr ''embed_resize''"
      "has_prop (resizeMessage c height) ''pageId''"
      "get_prop (resizeMessage c height) ''pageId'' = pageId c"
      "\<not> has_prop (resizeMessage c height) ''timestamp''"
    by (simp_all add: resizeMessage_def)
  have c: "attempted (effects_of (close w s)) = [closeMessage c]"
    using assms by (simp add: close_def attempted_sendToParent)
  have cf: "get_prop (closeMessage c) ''type'' = JStr ''embed_close''"
      "has_prop (closeMessage c) ''pageId''"
      "get_prop (closeMessage c) ''pageId'' = pageId c"
      "\<not> has_prop (closeMessage c) ''timestamp''"
    by (simp_all add: closeMessage_def)
  have d: "(if isReady s then attempted (effects_of (sendData w ts dat options s))
          else drop (length (messageQueue s))
                 (messageQueue (state_of (sendData w ts dat options s)))) =
           [dataMessage c ts dat options]"
    using assms by (simp add: sendData_def attempted_sendToParent state_of_triple)
  have df: "get_prop (dataMessage c ts dat options) ''type'' = JStr ''embed_data''"
      "has_prop (dataMessage c ts dat options) ''pageId''"
      "get_prop (dataMessage c ts dat options) ''pageId'' = pageId c"
      "get_prop (dataMessage c ts dat options) ''timestamp'' = JStr ts"
    by (simp_all add: dataMessage_def)
  have i: "set (attempted (effects_of (init w now ts cfg s0))) \<subseteq>
           {readyMessage (resolve_config now cfg) ts}"
    by (rule init_attempted)
  have rdy: "get_prop (readyMessage (resolve_config now cfg) ts) ''type'' = JStr ''embed_ready''"
      "has_prop (readyMessage (resolve_config now cfg) ts) ''pageId''"
      "truthy (get_prop (readyMessage (resolve_config now cfg) ts) ''pageId'')"
      "get_prop (readyMessage (resolve_config now cfg) ts) ''timestamp'' = JStr ts"
    by (simp_all add: readyMessage_def resolve_config_pageId)
  from r rf c cf d df i rdy show ?thesis by blast
qed

theorem outbound_message_fields_witness:
  "embedded example_world
   \<and> config example_session = Some example_config
   \<and> attempted (effects_of (resize example_world (JNum 480) example_session)) =
       [JObj [(''type'', JStr ''embed_resize''), (''pageId'', JStr ''loan-form-v1''),
              (''height'', JNum 480)]]
   \<and> attempted (effects_of (close example_world example_session)) =
       [JObj [(''type'', JStr ''embed_close''), (''pageId'', JStr ''loan-form-v1'')]]
   \<and> messageQueue (state_of (sendData example_world ''2023-11-14T22:13:21.000Z''
        (JNum 1) JUndefined example_session)) =
       [JObj [(''type'', JStr ''embed_data''), (''pageId'', JStr ''loan-form-v1''),
              (''data'', JNum 1), (''options'', JObj []),
              (''timestamp'', JStr ''2023-11-14T22:13:21.000Z'')]]"
proof -
  have h1: "embedded example_world" by (simp add: example_world_def)
  have h2: "config example_session = Some example_config"
    by (simp add: example_session_def)
  note t = outbound_message_fields [OF h1 h2, of "JNum 480" "''2023-11-14T22:13:21.000Z''"
      "JNum 1" JUndefined]
  have w1: "attempted (effects_of (resize example_world (JNum 480) example_session)) =
       [JObj [(''type'', JStr ''embed_resize''), (''pageId'', JStr ''loan-form-v1''),
              (''height'', JNum 480)]]"
    using t [THEN conjunct1] by (simp add: resizeMessage_def example_config_def)
  have w2: "attempted (effects_of (close example_world example_session)) =
       [JObj [(''type'', JStr ''embed_close''), (''pageId'', JStr ''loan-form-v1'')]]"
    using t [THEN conjunct2, THEN conjunct2, THEN conjunct2, THEN conjunct2, THEN conjunct2,
             THEN conjunct1]
    by (simp add: closeMessage_def example_config_def)
  have q: "\<not> isReady example_session" "messageQueue example_session = []"
    by (simp_all add: example_session_def)
  have w3: "messageQueue (state_of (sendData example_world ''2023-11-14T22:13:21.000Z''
        (JNum 1) JUndefined example_session)) =
       [JObj [(''type'', JStr ''embed_data''), (''pageId'', JStr ''loan-form-v1''),
              (''data'', JNum 1), (''options'', JObj []),
              (''timestamp'', JStr ''2023-11-14T22:13:21.000Z'')]]"
    using t [THEN conjunct2, THEN conjunct2, THEN conjunct2, THEN conjunct2, THEN conjunct2,
             THEN conjunct2, THEN conjunct2, THEN conjunct2, THEN conjunct2, THEN conjunct2,
             THEN conjunct1]
    by (simp add: q dataMessage_def example_config_def js_or_def)
  from h1 h2 w1 w2 w3 show ?thesis by blast
qed

theorem resize_close_timestamp_counterexample:
  "effects_of (resize example_world (JNum 480) example_session) =
     [PostMessage
        (JObj [(''type'', JStr ''embed_resize''), (''pageId'', JStr ''loan-form-v1''),
               (''height'', JNum 480)])
        (Some ''https://host.example'') None]
   \<and> has_prop (JObj [(''type'', JStr ''embed_resize''), (''pageId'', JStr ''loan-form-v1''),
                     (''height'', JNum 480)]) ''timestamp'' = False
   \<and> effects_of (close example_world example_session) =
     [PostMessage
        (JObj [(''type'', JStr ''embed_close''), (''pageId'', JStr ''loan-form-v1'')])
        (Some ''https://host.example'') None]
   \<and> has_prop (JObj [(''type'', JStr ''embed_close''), (''pageId'', JStr ''loan-form-v1'')])
        ''timestamp'' = False"
  by (simp add: resize_def close_def resizeMessage_def closeMessage_def sendToParent_def
      example_world_def example_session_def example_config_def effects_of_def)

subsection \<open>Commands without a registered handler\<close>

text \<open>
  A command whose name is not in the handler table and is not a property name of
  \<^verbatim>\<open>Object.prototype\<close> is answered with the warning only.
\<close>

lemma unregistered_command_warns:
  assumes "is_command_for w name ev"
    and "own (commandHandlers s) name = None" and "proto (commandHandlers s) = None"
    and "name \<noteq> ''__proto__''" and "name \<notin> set object_prototype_functions"
  shows "handleMessage w ev s =
     (Normal, s,
      [ConsoleWarn ''[ChatKit] No handler for command:'' [get_prop (data ev) ''command'']])"
proof -
  have ty: "get_prop (data ev) ''type'' = JStr ''parent_command''"
    and key: "to_property_key (number_to_string w) (get_prop (data ev) ''command'') = Inr name"
    using assms(1) by (simp_all add: is_command_for_def)
  have "get_handler w (commandHandlers s) name = Inr HUndefined"
    using assms(2-5) by (simp add: get_handler_def)
  then have "handleCommand w (data ev) s =
     (Normal, s,
      [ConsoleWarn ''[ChatKit] No handler for command:'' [get_prop (data ev) ''command'']])"
    using ty key by (simp add: handleCommand_def)
  moreover have "handleReady w (data ev) s = (Normal, s, [])"
    using ty by (simp add: handleReady_other_type)
  moreover have "handleMessage w ev s =
      and_then (handleReady w (data ev) s) (handleCommand w (data ev))"
    using assms(1) by (simp add: handleMessage_well_formed is_command_for_def)
  ultimately show ?thesis by (simp add: and_then_def)
qed

text \<open>
  C8 fails on the code. The handler table is a plain object, so a lookup of a name that
  was never registered still finds what \<^verbatim>\<open>Object.prototype\<close> holds under it. With no
  handler registered at all, the command \<^verbatim>\<open>__proto__\<close> finds the prototype object,
  which is truthy and not callable: the call throws a TypeError out of the listener and
  no warning is logged. The command \<^verbatim>\<open>toString\<close> finds and calls
  \<^verbatim>\<open>Object.prototype.toString\<close>, again without the warning.
\<close>

theorem inherited_command_name_is_dispatched:
  "own (commandHandlers example_session) ''__proto__'' = None
   \<and> own (commandHandlers example_session) ''toString'' = None
   \<and> proto (commandHandlers example_session) = None
   \<and> handleMessage example_world (command_event ''__proto__'' ''https://host.example'')
        example_session =
       (Throw TypeError, example_session, [])
   \<and> handleMessage example_world (command_event ''toString'' ''https://host.example'')
        example_session =
       (Normal, example_session, [CallBuiltin ''toString'' (JObj [])])"
  by (simp add: handleMessage_def handleReady_def handleCommand_def and_then_def Let_def
      js_not_def get_handler_def object_prototype_functions_def command_event_def
      example_session_def example_world_def plain_builtin_call_def)

end
